theory Spec2Isabelle
  imports Main
begin

section \<open>The HAProxy configuration generator of haproxy.js\<close>

text \<open>
  A shallow embedding of \<^verbatim>\<open>src/haproxy.js\<close>. Text is \<^typ>\<open>string\<close>; every
  \<^verbatim>\<open>util.format\<close> pattern of the source is a function of its arguments that yields
  the pattern's text with each \<^verbatim>\<open>%s\<close> replaced by the string argument and each
  \<^verbatim>\<open>%d\<close> by the decimal rendering of the number argument. The newline that opens
  every template literal of the source is the first character of each pattern.
\<close>

subsection \<open>Constants\<close>

definition image :: string where
  "image = ''haproxy:1.7''"

definition configPath :: string where
  "configPath = ''/usr/local/etc/haproxy/haproxy.cfg''"

text \<open>The port HAProxy uses to communicate with the services behind it.\<close>

definition internalPort :: nat where
  "internalPort = 80"

text \<open>The port HAProxy listens on.\<close>

definition exposedPort :: nat where
  "exposedPort = 80"

subsection \<open>Number formatting of \<^verbatim>\<open>%d\<close>\<close>

definition digitChar :: "nat \<Rightarrow> char" where
  "digitChar d = ''0123456789'' ! d"

fun formatNumber :: "nat \<Rightarrow> string" where
  "formatNumber n =
     (if n < 10 then [digitChar n]
      else formatNumber (n div 10) @ [digitChar (n mod 10)])"

declare formatNumber.simps [simp del]

subsection \<open>The patterns\<close>

definition backendPattern :: "string \<Rightarrow> string \<Rightarrow> string" where
  "backendPattern a b =
     ''\<newline>backend '' @ a @ ''\<newline>    balance '' @ b @
     ''\<newline>    cookie SERVERID insert indirect nocache''"

definition defaultBackendPattern :: "string \<Rightarrow> string" where
  "defaultBackendPattern a = ''\<newline>    default_backend '' @ a"

definition aclPattern :: "string \<Rightarrow> string \<Rightarrow> string" where
  "aclPattern a b = ''\<newline>    acl '' @ a @ '' hdr(host) -i '' @ b"

definition useBackendPattern :: "string \<Rightarrow> string \<Rightarrow> string" where
  "useBackendPattern a b = ''\<newline>    use_backend '' @ a @ '' if '' @ b"

definition serverPattern :: "string \<Rightarrow> string \<Rightarrow> nat \<Rightarrow> string \<Rightarrow> string" where
  "serverPattern a b d c =
     ''\<newline>    server '' @ a @ '' '' @ b @ '':'' @ formatNumber d @
     '' check resolvers dns cookie '' @ c"

text \<open>The pattern \<^verbatim>\<open>'%s-%d'\<close> of the server name.\<close>

definition serverNamePattern :: "string \<Rightarrow> nat \<Rightarrow> string" where
  "serverNamePattern a d = a @ ''-'' @ formatNumber d"

subsection \<open>Services, containers and objects\<close>

text \<open>
  A \<^verbatim>\<open>Service\<close> of the orchestration library, as far as haproxy.js touches it: its
  name, the snapshot of addresses that \<^verbatim>\<open>service.children()\<close> returns at generation
  time, and the connections granted to it so far by \<^verbatim>\<open>allowFrom\<close> (the name of the
  source service and the port).
\<close>

record service =
  name :: string
  children :: "string list"
  allowedInbound :: "(string \<times> nat) list"

record container =
  containerImage :: string
  command :: "string list"
  filepathToContent :: "string \<rightharpoonup> string"

text \<open>The service that \<^verbatim>\<open>new Service('haproxy', hapRef.replicate(n))\<close> builds.\<close>

record hap_service =
  hapName :: string
  hapContainers :: "container list"

text \<open>
  A plain JavaScript object with string keys, as an object literal or \<^verbatim>\<open>JSON.parse\<close>
  builds it: its own enumerable properties in the order in which \<^verbatim>\<open>for ... in\<close>
  visits them; its prototype is \<^verbatim>\<open>Object.prototype\<close>, which has no enumerable
  property. The keys of an object are distinct, which the theorems about objects
  assume. The lookup \<^verbatim>\<open>obj[k]\<close> is \<open>map_of\<close> in the list, with \<open>None\<close> for
  \<^verbatim>\<open>undefined\<close>.
\<close>

type_synonym 'v js_object = "(string \<times> 'v) list"

definition forInKeys :: "'v js_object \<Rightarrow> string list" where
  "forInKeys obj = map fst obj"

datatype error = TypeError

text \<open>
  The call \<^verbatim>\<open>obj.hasOwnProperty(k)\<close>. The method is looked up in the object itself
  first: when the object has an own property with the key \<^verbatim>\<open>hasOwnProperty\<close>, the
  call applies the value stored there, which is not a function, and raises a
  \<^verbatim>\<open>TypeError\<close>. Otherwise the method is the built-in one of the prototype, which
  tells whether \<open>k\<close> is an own key.
\<close>

definition hasOwnProperty :: "'v js_object \<Rightarrow> string \<Rightarrow> error + bool" where
  "hasOwnProperty obj k =
     (case map_of obj ''hasOwnProperty'' of
        Some v \<Rightarrow> Inl TypeError
      | None \<Rightarrow> Inr (map_of obj k \<noteq> None))"

text \<open>A parameter that is either one value or an array of values.\<close>

datatype 'a one_or_many = One 'a | Many "'a list"

text \<open>\<^verbatim>\<open>Array.isArray(services) ? services : [services]\<close>\<close>

fun toArray :: "'a one_or_many \<Rightarrow> 'a list" where
  "toArray (Many xs) = xs"
| "toArray (One x) = [x]"

subsection \<open>backendName\<close>

definition backendName :: "service \<Rightarrow> string" where
  "backendName s = name s"

subsection \<open>createBackendConfigs\<close>

text \<open>
  The inner loop \<^verbatim>\<open>for (let i = 0; i < addrs.length; i++)\<close>, with the text
  accumulated so far.
\<close>

function createBackendConfigs_servers ::
    "string \<Rightarrow> string list \<Rightarrow> nat \<Rightarrow> string \<Rightarrow> string" where
  "createBackendConfigs_servers nm addrs i config =
     (if i < length addrs
      then (let serverName = serverNamePattern nm i
            in createBackendConfigs_servers nm addrs (i + 1)
                 (config @ serverPattern serverName (addrs ! i) internalPort serverName))
      else config)"
  by pat_completeness auto
termination
  by (relation "measure (\<lambda>(nm, addrs, i, config). length addrs - i)") auto

declare createBackendConfigs_servers.simps [simp del]

text \<open>The callback of \<^verbatim>\<open>services.forEach\<close>: one service, appended to the text so far.\<close>

definition createBackendConfigs_service :: "string \<Rightarrow> service \<Rightarrow> string \<Rightarrow> string" where
  "createBackendConfigs_service balance s config =
     (let nm = backendName s;
          addrs = children s;
          config1 = config @ backendPattern nm balance;
          config2 = createBackendConfigs_servers nm addrs 0 config1
      in config2 @ ''\<newline>'')"

fun createBackendConfigs_forEach :: "string \<Rightarrow> service list \<Rightarrow> string \<Rightarrow> string" where
  "createBackendConfigs_forEach balance [] config = config"
| "createBackendConfigs_forEach balance (s # rest) config =
     createBackendConfigs_forEach balance rest (createBackendConfigs_service balance s config)"

definition createBackendConfigs :: "service one_or_many \<Rightarrow> string \<Rightarrow> string" where
  "createBackendConfigs services balance =
     createBackendConfigs_forEach balance (toArray services) ''''"

subsection \<open>urlRoutingConfig\<close>

text \<open>
  The loop over the keys of the object. The call of \<^verbatim>\<open>hasOwnProperty\<close> may raise;
  a key that is not an own property is skipped (\<^verbatim>\<open>continue\<close>); otherwise the
  service stored under the key adds one acl rule and one use_backend rule to the two
  accumulators. An own key always has a value; \<^verbatim>\<open>backendName(undefined)\<close> would raise
  a \<^verbatim>\<open>TypeError\<close>.
\<close>

fun urlRoutingConfig_loop ::
    "service js_object \<Rightarrow> string list \<Rightarrow> string \<Rightarrow> string \<Rightarrow> error + string \<times> string" where
  "urlRoutingConfig_loop domainToService [] acls backendRules = Inr (acls, backendRules)"
| "urlRoutingConfig_loop domainToService (domain # rest) acls backendRules =
     (case hasOwnProperty domainToService domain of
        Inl e \<Rightarrow> Inl e
      | Inr own \<Rightarrow>
          if \<not> own then urlRoutingConfig_loop domainToService rest acls backendRules
          else
            (case map_of domainToService domain of
               None \<Rightarrow> Inl TypeError
             | Some s \<Rightarrow>
                 (let nm = backendName s;
                      match = nm @ ''_req''
                  in urlRoutingConfig_loop domainToService rest
                       (acls @ aclPattern match domain)
                       (backendRules @ useBackendPattern nm match))))"

definition urlRoutingConfig :: "service js_object \<Rightarrow> error + string" where
  "urlRoutingConfig domainToService =
     (case urlRoutingConfig_loop domainToService (forInKeys domainToService) '''' '''' of
        Inl e \<Rightarrow> Inl e
      | Inr (acls, backendRules) \<Rightarrow> Inr (acls @ backendRules))"

subsection \<open>createConfigFiles\<close>

text \<open>
  The template \<^verbatim>\<open>haproxy.cfg\<close> that the function reads and the renderer
  \<^verbatim>\<open>Mustache.render\<close> of the template library are parameters: \<open>configTempl\<close> is
  the text that the read of the file returns, \<open>render\<close> maps a template and a view
  to text. A read that fails ends the source function with an exception before any
  text is assembled; the model starts from a read that succeeded.
\<close>

type_synonym view = "(string \<times> nat) list"

type_synonym renderer = "string \<Rightarrow> view \<Rightarrow> string"

definition createConfigFiles ::
    "renderer \<Rightarrow> string \<Rightarrow> string \<Rightarrow> string \<Rightarrow> (string \<rightharpoonup> string)" where
  "createConfigFiles render configTempl frontendConfig backendConfig =
     (let config = render configTempl [(''port'', exposedPort)];
          config1 = config @ (frontendConfig @ ''\<newline>'' @ backendConfig)
      in Map.empty(configPath \<mapsto> config1))"

subsection \<open>createHapService\<close>

text \<open>\<^verbatim>\<open>service.allowFrom(haproxy, port)\<close> records one more inbound connection.\<close>

definition allowFrom :: "hap_service \<Rightarrow> nat \<Rightarrow> service \<Rightarrow> service" where
  "allowFrom src port s =
     s\<lparr>allowedInbound := allowedInbound s @ [(hapName src, port)]\<rparr>"

text \<open>
  The function returns the HAProxy service; its effect on the services behind the proxy
  is the second component of the result, the elements of the array after
  \<^verbatim>\<open>allowFrom\<close>. A service object that occurs twice in the array is updated twice
  in the source; the list of values shows it as two copies, each updated once.
\<close>

definition createHapService ::
    "nat \<Rightarrow> service one_or_many \<Rightarrow> (string \<rightharpoonup> string) \<Rightarrow> hap_service \<times> service list" where
  "createHapService n services files =
     (let services1 = toArray services;
          hapRef = \<lparr>containerImage = image,
                    command = [''haproxy-systemd-wrapper'', ''-p'', ''/run/haproxy.pid'',
                               ''-f'', configPath],
                    filepathToContent = files\<rparr>;
          haproxy = \<lparr>hapName = ''haproxy'', hapContainers = replicate n hapRef\<rparr>
      in (haproxy, map (allowFrom haproxy internalPort) services1))"

subsection \<open>The two entry points\<close>

text \<open>The default value of the parameter \<^verbatim>\<open>balance\<close>, used when it is omitted.\<close>

definition balanceOrDefault :: "string option \<Rightarrow> string" where
  "balanceOrDefault balance = (case balance of None \<Rightarrow> ''roundrobin'' | Some b \<Rightarrow> b)"

definition singleServiceLoadBalancer ::
    "renderer \<Rightarrow> string \<Rightarrow> nat \<Rightarrow> service \<Rightarrow> string option \<Rightarrow> hap_service \<times> service list" where
  "singleServiceLoadBalancer render configTempl n s balance =
     (let frontendConfig = defaultBackendPattern (backendName s);
          backendConfig = createBackendConfigs (One s) (balanceOrDefault balance);
          files = createConfigFiles render configTempl frontendConfig backendConfig
      in createHapService n (One s) files)"

text \<open>
  The first loop of \<^verbatim>\<open>withURLrouting\<close>, which collects the services of the map. The
  call of \<^verbatim>\<open>hasOwnProperty\<close> may raise. An own key always has a value; an
  \<^verbatim>\<open>undefined\<close> element of the array would raise a \<^verbatim>\<open>TypeError\<close> at its first use.
\<close>

fun withURLrouting_loop ::
    "service js_object \<Rightarrow> string list \<Rightarrow> service list \<Rightarrow> error + service list" where
  "withURLrouting_loop domainToService [] services = Inr services"
| "withURLrouting_loop domainToService (domain # rest) services =
     (case hasOwnProperty domainToService domain of
        Inl e \<Rightarrow> Inl e
      | Inr own \<Rightarrow>
          if own then
            (case map_of domainToService domain of
               Some s \<Rightarrow> withURLrouting_loop domainToService rest (services @ [s])
             | None \<Rightarrow> Inl TypeError)
          else withURLrouting_loop domainToService rest services)"

text \<open>
  The entry point raises what its first loop or \<^verbatim>\<open>urlRoutingConfig\<close> raises, before
  any file is assembled.
\<close>

definition withURLrouting ::
    "renderer \<Rightarrow> string \<Rightarrow> nat \<Rightarrow> service js_object \<Rightarrow> string option
       \<Rightarrow> error + hap_service \<times> service list" where
  "withURLrouting render configTempl n domainToService balance =
     (case withURLrouting_loop domainToService (forInKeys domainToService) [] of
        Inl e \<Rightarrow> Inl e
      | Inr services \<Rightarrow>
          (case urlRoutingConfig domainToService of
             Inl e \<Rightarrow> Inl e
           | Inr frontendConfig \<Rightarrow>
               (let backendConfig =
                      createBackendConfigs (Many services) (balanceOrDefault balance);
                    files = createConfigFiles render configTempl frontendConfig backendConfig
                in Inr (createHapService n (Many services) files))))"

section \<open>The generated text, line by line\<close>

text \<open>
  The description of the output in the words of the specification: the generated text is
  a sequence of lines, each preceded by a newline.
\<close>

definition joinLines :: "string list \<Rightarrow> string" where
  "joinLines ls = concat (map (\<lambda>l. CHR ''\<newline>'' # l) ls)"

text \<open>
  The server line of endpoint number \<open>i\<close> (counted from 0) of the backend \<open>nm\<close>: the id
  \<open>nm-i\<close>, the address, the internal port 80, and the id again as the cookie value.
\<close>

definition serverLine :: "string \<Rightarrow> nat \<Rightarrow> string \<Rightarrow> string" where
  "serverLine nm i addr =
     ''    server '' @ nm @ ''-'' @ formatNumber i @ '' '' @ addr @
     '':80 check resolvers dns cookie '' @ nm @ ''-'' @ formatNumber i"

text \<open>
  The backend block of one service: the header, the balance directive, the cookie
  directive, one server line per endpoint of the snapshot in snapshot order, and the
  empty line that closes the block.
\<close>

definition backendBlock :: "string \<Rightarrow> service \<Rightarrow> string list" where
  "backendBlock b s =
     [''backend '' @ name s, ''    balance '' @ b,
      ''    cookie SERVERID insert indirect nocache''] @
     map (\<lambda>i. serverLine (name s) i (children s ! i)) [0..<length (children s)] @
     [[]]"

text \<open>The host-match rule and the routing rule of one entry of the domain map.\<close>

definition aclLine :: "string \<Rightarrow> service \<Rightarrow> string" where
  "aclLine domain s = ''    acl '' @ name s @ ''_req hdr(host) -i '' @ domain"

definition useBackendLine :: "service \<Rightarrow> string" where
  "useBackendLine s = ''    use_backend '' @ name s @ '' if '' @ name s @ ''_req''"

text \<open>
  The document of the multi-target entry point in the words of the specification: the
  rendered preamble, the acl lines and the use_backend lines of the entries, a newline,
  and the backend blocks of the services of the entries.
\<close>

definition routingDocument ::
    "renderer \<Rightarrow> string \<Rightarrow> string \<Rightarrow> service js_object \<Rightarrow> string" where
  "routingDocument render templ b dm =
     render templ [(''port'', exposedPort)] @
     joinLines (map (\<lambda>(d, s). aclLine d s) dm @ map (\<lambda>(d, s). useBackendLine s) dm) @
     ''\<newline>'' @
     joinLines (concat (map (\<lambda>(d, s). backendBlock b s) dm))"

section \<open>Reading a configuration text\<close>

text \<open>
  The line and word structure of a configuration text: lines are separated by newlines,
  the words of a line by spaces, and a directive is a line with at least one word. The
  first word of a directive is its keyword.
\<close>

fun splitOn :: "char \<Rightarrow> string \<Rightarrow> string list" where
  "splitOn c [] = [[]]"
| "splitOn c (x # xs) =
     (if x = c then [] # splitOn c xs
      else (case splitOn c xs of [] \<Rightarrow> [[x]] | w # ws \<Rightarrow> (x # w) # ws))"

definition configLines :: "string \<Rightarrow> string list" where
  "configLines text = splitOn CHR ''\<newline>'' text"

definition configWords :: "string \<Rightarrow> string list" where
  "configWords line = filter (\<lambda>w. w \<noteq> []) (splitOn CHR '' '' line)"

definition directivesOf :: "string \<Rightarrow> string list list" where
  "directivesOf text = filter (\<lambda>d. d \<noteq> []) (map configWords (configLines text))"

fun hasKeyword :: "string \<Rightarrow> string list \<Rightarrow> bool" where
  "hasKeyword kw [] = False"
| "hasKeyword kw (k # args) = (k = kw)"

fun firstArg :: "string list \<Rightarrow> string list" where
  "firstArg (k # a # args) = [a]"
| "firstArg d = []"

text \<open>The directives of a text with a given keyword, and their first arguments.\<close>

definition directivesWith :: "string \<Rightarrow> string \<Rightarrow> string list list" where
  "directivesWith kw text = filter (hasKeyword kw) (directivesOf text)"

definition targetsOf :: "string \<Rightarrow> string \<Rightarrow> string list" where
  "targetsOf kw text = concat (map firstArg (directivesWith kw text))"

text \<open>
  A word of the configuration grammar: not empty, without space and without newline.
  Service names, domains, addresses and balance tokens are expected to be such words;
  the generator does not check it.
\<close>

definition token :: "string \<Rightarrow> bool" where
  "token t = (t \<noteq> [] \<and> CHR '' '' \<notin> set t \<and> CHR ''\<newline>'' \<notin> set t)"

definition wellFormedService :: "service \<Rightarrow> bool" where
  "wellFormedService s = (token (name s) \<and> list_all token (children s))"

fun joinWords :: "string list \<Rightarrow> string" where
  "joinWords [] = []"
| "joinWords [w] = w"
| "joinWords (w # v # ws) = w @ CHR '' '' # joinWords (v # ws)"

text \<open>The directives that the lines above read back as.\<close>

definition serverDirective :: "string \<Rightarrow> nat \<Rightarrow> string \<Rightarrow> string list" where
  "serverDirective nm i addr =
     [''server'', nm @ ''-'' @ formatNumber i, addr @ '':80'', ''check'', ''resolvers'',
      ''dns'', ''cookie'', nm @ ''-'' @ formatNumber i]"

definition backendDirectives :: "string \<Rightarrow> service \<Rightarrow> string list list" where
  "backendDirectives b s =
     [[''backend'', name s], [''balance'', b],
      [''cookie'', ''SERVERID'', ''insert'', ''indirect'', ''nocache'']] @
     map (\<lambda>i. serverDirective (name s) i (children s ! i)) [0..<length (children s)]"

definition aclDirective :: "string \<Rightarrow> service \<Rightarrow> string list" where
  "aclDirective domain s = [''acl'', name s @ ''_req'', ''hdr(host)'', ''-i'', domain]"

definition useBackendDirective :: "service \<Rightarrow> string list" where
  "useBackendDirective s = [''use_backend'', name s, ''if'', name s @ ''_req'']"

section \<open>Inputs that the generator cannot tell apart\<close>

text \<open>
  Two services with the same name and the same endpoint snapshot, and two domain maps
  that list the same domains in the same order with such services.
\<close>

definition sameSnapshot :: "service \<Rightarrow> service \<Rightarrow> bool" where
  "sameSnapshot s' s = (name s' = name s \<and> children s' = children s)"

definition sameEntries :: "service js_object \<Rightarrow> service js_object \<Rightarrow> bool" where
  "sameEntries dm' dm =
     list_all2 (\<lambda>e' e. fst e' = fst e \<and> sameSnapshot (snd e') (snd e)) dm' dm"

section \<open>A renderer and an accessor for the examples\<close>

text \<open>
  A renderer for templates whose only tags are variables of the view: every occurrence
  of \<^verbatim>\<open>{{key}}\<close> is replaced by the decimal value of the key. It instantiates the
  parameter \<open>render\<close> in the examples below.
\<close>

fun substitute :: "string \<Rightarrow> string \<Rightarrow> string \<Rightarrow> string" where
  "substitute tag v [] = []"
| "substitute tag v (c # cs) =
     (if tag \<noteq> [] \<and> take (length tag) (c # cs) = tag
      then v @ substitute tag v (drop (length tag - 1) cs)
      else c # substitute tag v cs)"

definition mustacheRender :: renderer where
  "mustacheRender templ vw =
     foldl (\<lambda>t (k, n). substitute (''{{'' @ k @ ''}}'') (formatNumber n) t) templ vw"

text \<open>
  The configuration document that the first replica of the returned HAProxy service
  holds at \<open>configPath\<close> (the empty text when there is no replica).
\<close>

definition configOf :: "hap_service \<times> service list \<Rightarrow> string" where
  "configOf r =
     (case hapContainers (fst r) of
        [] \<Rightarrow> []
      | c # cs \<Rightarrow> (case filepathToContent c configPath of None \<Rightarrow> [] | Some text \<Rightarrow> text))"

text \<open>The same for a result that may be an error (the empty text for an error).\<close>

definition documentOf :: "error + hap_service \<times> service list \<Rightarrow> string" where
  "documentOf r = (case r of Inl e \<Rightarrow> [] | Inr v \<Rightarrow> configOf v)"

section \<open>The loops in closed form\<close>

lemma formatNumber_80: "formatNumber 80 = ''80''"
  by (simp add: formatNumber.simps digitChar_def)

lemma formatNumber_0: "formatNumber 0 = ''0''"
  by (simp add: formatNumber.simps digitChar_def)

lemma formatNumber_1: "formatNumber (Suc 0) = ''1''"
  by (simp add: formatNumber.simps digitChar_def)

lemma joinLines_append: "joinLines (xs @ ys) = joinLines xs @ joinLines ys"
  by (simp add: joinLines_def)

lemma joinLines_Cons: "joinLines (x # xs) = CHR ''\<newline>'' # x @ joinLines xs"
  by (simp add: joinLines_def)

lemma joinLines_Nil: "joinLines [] = []"
  by (simp add: joinLines_def)

lemma serverPattern_line:
  "serverPattern (serverNamePattern nm i) addr internalPort (serverNamePattern nm i)
     = joinLines [serverLine nm i addr]"
  by (simp add: serverPattern_def serverNamePattern_def internalPort_def formatNumber_80
      joinLines_def serverLine_def)

lemma servers_loop:
  "createBackendConfigs_servers nm addrs i config =
     config @ joinLines (map (\<lambda>j. serverLine nm j (addrs ! j)) [i..<length addrs])"
proof (induction nm addrs i config rule: createBackendConfigs_servers.induct)
  case (1 nm addrs i config)
  show ?case
  proof (cases "i < length addrs")
    case True
    then have "[i..<length addrs] = i # [Suc i..<length addrs]"
      by (simp add: upt_conv_Cons)
    with True 1 show ?thesis
      by (subst createBackendConfigs_servers.simps)
         (simp add: serverPattern_line joinLines_Cons joinLines_Nil)
  next
    case False
    then show ?thesis
      by (subst createBackendConfigs_servers.simps) (simp add: joinLines_Nil)
  qed
qed

lemma backendPattern_lines:
  "backendPattern nm b = joinLines [''backend '' @ nm, ''    balance '' @ b,
      ''    cookie SERVERID insert indirect nocache'']"
  by (simp add: backendPattern_def joinLines_def)

lemma service_block:
  "createBackendConfigs_service b s config = config @ joinLines (backendBlock b s)"
proof -
  have "joinLines (backendBlock b s) =
      backendPattern (name s) b @
      joinLines (map (\<lambda>i. serverLine (name s) i (children s ! i)) [0..<length (children s)]) @
      ''\<newline>''"
    unfolding backendBlock_def joinLines_append backendPattern_lines
    by (simp add: joinLines_def)
  then show ?thesis
    by (simp add: createBackendConfigs_service_def backendName_def servers_loop Let_def)
qed

lemma forEach_blocks:
  "createBackendConfigs_forEach b ss config =
     config @ joinLines (concat (map (backendBlock b) ss))"
  by (induction ss arbitrary: config) (simp_all add: service_block joinLines_append joinLines_Nil)

lemma createBackendConfigs_lines:
  "createBackendConfigs services b = joinLines (concat (map (backendBlock b) (toArray services)))"
  by (simp add: createBackendConfigs_def forEach_blocks)

lemma createBackendConfigs_split:
  "createBackendConfigs (Many (pre @ s # post)) b =
     createBackendConfigs (Many pre) b @ createBackendConfigs (One s) b @
     createBackendConfigs (Many post) b"
  by (simp add: createBackendConfigs_lines joinLines_append)

lemma createBackendConfigs_One:
  "createBackendConfigs (One s) b =
     backendPattern (name s) b @
     joinLines (map (\<lambda>i. serverLine (name s) i (children s ! i)) [0..<length (children s)]) @
     ''\<newline>''"
  unfolding createBackendConfigs_lines backendBlock_def
  by (simp add: joinLines_append backendPattern_lines) (simp add: joinLines_def)

lemma aclPattern_line:
  "aclPattern (backendName s @ ''_req'') d = joinLines [aclLine d s]"
  by (simp add: aclPattern_def backendName_def joinLines_def aclLine_def)

lemma useBackendPattern_line:
  "useBackendPattern (backendName s) (backendName s @ ''_req'') = joinLines [useBackendLine s]"
  by (simp add: useBackendPattern_def backendName_def joinLines_def useBackendLine_def)

lemma hasOwnProperty_builtin:
  "''hasOwnProperty'' \<notin> set (map fst obj) \<Longrightarrow>
   hasOwnProperty obj k = Inr (map_of obj k \<noteq> None)"
proof -
  assume "''hasOwnProperty'' \<notin> set (map fst obj)"
  then have "map_of obj ''hasOwnProperty'' = None"
    by (simp add: map_of_eq_None_iff)
  then show ?thesis by (simp add: hasOwnProperty_def)
qed

lemma hasOwnProperty_shadowed:
  "''hasOwnProperty'' \<in> set (map fst obj) \<Longrightarrow> hasOwnProperty obj k = Inl TypeError"
proof -
  assume "''hasOwnProperty'' \<in> set (map fst obj)"
  then have "map_of obj ''hasOwnProperty'' \<noteq> None"
    by (simp add: map_of_eq_None_iff)
  then obtain v where "map_of obj ''hasOwnProperty'' = Some v" by blast
  then show ?thesis by (simp add: hasOwnProperty_def)
qed

lemma own_property_lookup:
  "distinct (map fst obj) \<Longrightarrow> (k, v) \<in> set obj \<Longrightarrow> map_of obj k = Some v"
  by simp

lemma urlRoutingConfig_loop_entries:
  "distinct (map fst obj) \<Longrightarrow> ''hasOwnProperty'' \<notin> set (map fst obj) \<Longrightarrow>
   set ps \<subseteq> set obj \<Longrightarrow>
   urlRoutingConfig_loop obj (map fst ps) acls rules =
     Inr (acls @ joinLines (map (\<lambda>(d, s). aclLine d s) ps),
          rules @ joinLines (map (\<lambda>(d, s). useBackendLine s) ps))"
proof (induction ps arbitrary: acls rules)
  case Nil
  then show ?case by (simp add: joinLines_Nil)
next
  case (Cons p ps)
  obtain d s where p: "p = (d, s)" by (cases p)
  with Cons.prems have own: "map_of obj d = Some s"
    by (simp add: own_property_lookup)
  from Cons.prems(2) have guard: "hasOwnProperty obj d = Inr True"
    by (simp add: hasOwnProperty_builtin own)
  from Cons p show ?case
    by (simp add: own guard Let_def aclPattern_line useBackendPattern_line joinLines_Cons
        joinLines_Nil)
qed

lemma urlRoutingConfig_lines:
  "distinct (map fst obj) \<Longrightarrow> ''hasOwnProperty'' \<notin> set (map fst obj) \<Longrightarrow>
   urlRoutingConfig obj =
     Inr (joinLines (map (\<lambda>(d, s). aclLine d s) obj @ map (\<lambda>(d, s). useBackendLine s) obj))"
  by (simp add: urlRoutingConfig_def forInKeys_def urlRoutingConfig_loop_entries
      joinLines_append)


lemma withURLrouting_loop_entries:
  "distinct (map fst obj) \<Longrightarrow> ''hasOwnProperty'' \<notin> set (map fst obj) \<Longrightarrow>
   set ps \<subseteq> set obj \<Longrightarrow>
   withURLrouting_loop obj (map fst ps) acc = Inr (acc @ map snd ps)"
proof (induction ps arbitrary: acc)
  case Nil
  then show ?case by simp
next
  case (Cons p ps)
  obtain d s where p: "p = (d, s)" by (cases p)
  with Cons.prems have own: "map_of obj d = Some s"
    by (simp add: own_property_lookup)
  from Cons.prems(2) have guard: "hasOwnProperty obj d = Inr True"
    by (simp add: hasOwnProperty_builtin own)
  from Cons p show ?case by (simp add: own guard)
qed

lemma withURLrouting_services:
  "distinct (map fst obj) \<Longrightarrow> ''hasOwnProperty'' \<notin> set (map fst obj) \<Longrightarrow>
   withURLrouting_loop obj (forInKeys obj) [] = Inr (map snd obj)"
  by (simp add: forInKeys_def withURLrouting_loop_entries)

lemma withURLrouting_raises:
  "''hasOwnProperty'' \<in> set (map fst dm) \<Longrightarrow>
   withURLrouting render templ n dm bal = Inl TypeError"
proof -
  assume key: "''hasOwnProperty'' \<in> set (map fst dm)"
  then obtain p ps where dm: "dm = p # ps" by (cases dm) auto
  have "withURLrouting_loop dm (fst p # map fst ps) [] = Inl TypeError"
    by (simp add: hasOwnProperty_shadowed [OF key])
  then show ?thesis by (simp add: withURLrouting_def forInKeys_def dm)
qed

lemma singleServiceLoadBalancer_files:
  "singleServiceLoadBalancer render templ n s bal =
     createHapService n (One s)
       (createConfigFiles render templ (defaultBackendPattern (name s))
          (createBackendConfigs (One s) (balanceOrDefault bal)))"
  by (simp add: singleServiceLoadBalancer_def backendName_def Let_def)

lemma withURLrouting_files:
  "distinct (map fst dm) \<Longrightarrow> ''hasOwnProperty'' \<notin> set (map fst dm) \<Longrightarrow>
   withURLrouting render templ n dm bal =
     Inr (createHapService n (Many (map snd dm))
       (createConfigFiles render templ
          (joinLines (map (\<lambda>(d, s). aclLine d s) dm @ map (\<lambda>(d, s). useBackendLine s) dm))
          (createBackendConfigs (Many (map snd dm)) (balanceOrDefault bal))))"
  by (simp add: withURLrouting_def withURLrouting_services urlRoutingConfig_lines Let_def)

lemma snd_blocks:
  "map (backendBlock b) (map snd dm) = map (\<lambda>(d, s). backendBlock b s) dm"
  by (induction dm) auto

lemma routing_files:
  "createConfigFiles render templ
     (joinLines (map (\<lambda>(d, s). aclLine d s) dm @ map (\<lambda>(d, s). useBackendLine s) dm))
     (createBackendConfigs (Many (map snd dm)) b)
   = [configPath \<mapsto> routingDocument render templ b dm]"
  by (simp add: createConfigFiles_def Let_def routingDocument_def createBackendConfigs_lines
      comp_def case_prod_unfold)

lemma withURLrouting_deploys:
  "distinct (map fst dm) \<Longrightarrow> ''hasOwnProperty'' \<notin> set (map fst dm) \<Longrightarrow>
   withURLrouting render templ n dm bal =
     Inr (createHapService n (Many (map snd dm))
            [configPath \<mapsto> routingDocument render templ (balanceOrDefault bal) dm])"
  by (simp add: withURLrouting_files routing_files)

lemma render_example:
  "mustacheRender ''frontend http-in\<newline>    bind *:{{port}}'' [(''port'', 80)]
     = ''frontend http-in\<newline>    bind *:80''"
  by (simp add: mustacheRender_def formatNumber.simps digitChar_def)

section \<open>Reading the generated text back\<close>

lemma splitOn_no_sep: "c \<notin> set a \<Longrightarrow> splitOn c a = [a]"
  by (induction a) auto

lemma splitOn_append_sep:
  "c \<notin> set a \<Longrightarrow> splitOn c (a @ c # rest) = a # splitOn c rest"
  by (induction a) auto

lemma splitOn_joinLines:
  "CHR ''\<newline>'' \<notin> set a \<Longrightarrow> \<forall>l \<in> set ls. CHR ''\<newline>'' \<notin> set l \<Longrightarrow>
   splitOn CHR ''\<newline>'' (a @ joinLines ls) = a # ls"
proof (induction ls arbitrary: a)
  case Nil
  then show ?case by (simp add: joinLines_Nil splitOn_no_sep)
next
  case (Cons l ls)
  then show ?case by (simp add: joinLines_Cons splitOn_append_sep)
qed

lemma configLines_joinLines:
  "\<forall>l \<in> set ls. CHR ''\<newline>'' \<notin> set l \<Longrightarrow> configLines (joinLines ls) = [] # ls"
  using splitOn_joinLines [of "[]" ls] by (simp add: configLines_def)

lemma splitOn_joinWords:
  "ws \<noteq> [] \<Longrightarrow> \<forall>w \<in> set ws. CHR '' '' \<notin> set w \<Longrightarrow> splitOn CHR '' '' (joinWords ws) = ws"
proof (induction ws rule: joinWords.induct)
  case 1
  then show ?case by simp
next
  case (2 w)
  then show ?case by (simp add: splitOn_no_sep)
next
  case (3 w v ws)
  then show ?case by (simp add: splitOn_append_sep)
qed

lemma configWords_indent:
  "configWords (CHR '' '' # line) = configWords line"
  by (simp add: configWords_def)

lemma configWords_joinWords:
  "\<forall>w \<in> set ws. w \<noteq> [] \<and> CHR '' '' \<notin> set w \<Longrightarrow> configWords (joinWords ws) = ws"
proof (cases "ws = []")
  case True
  then show ?thesis by (simp add: configWords_def)
next
  case False
  assume "\<forall>w \<in> set ws. w \<noteq> [] \<and> CHR '' '' \<notin> set w"
  with False show ?thesis
    by (simp add: configWords_def splitOn_joinWords filter_id_conv)
qed

lemma directivesOf_joinLines:
  "\<forall>l \<in> set ls. CHR ''\<newline>'' \<notin> set l \<Longrightarrow>
   directivesOf (joinLines ls) = filter (\<lambda>d. d \<noteq> []) (map configWords ls)"
  by (simp add: directivesOf_def configLines_joinLines configWords_def)

lemma configWords_line:
  "set ind \<subseteq> {CHR '' ''} \<Longrightarrow> \<forall>w \<in> set ws. token w \<Longrightarrow> configWords (ind @ joinWords ws) = ws"
proof (induction ind)
  case Nil
  then show ?case by (simp add: configWords_joinWords token_def)
next
  case (Cons c ind)
  then show ?case by (simp add: configWords_indent)
qed

lemma joinWords_no_newline:
  "\<forall>w \<in> set ws. token w \<Longrightarrow> CHR ''\<newline>'' \<notin> set (joinWords ws)"
  by (induction ws rule: joinWords.induct) (simp_all add: token_def)

lemma indent4: "set ''    '' \<subseteq> {CHR '' ''}"
  by simp

lemma digitChar_digit: "d < 10 \<Longrightarrow> digitChar d \<in> set ''0123456789''"
  unfolding digitChar_def by (rule nth_mem) simp

lemma formatNumber_digits: "set (formatNumber n) \<subseteq> set ''0123456789''"
proof (induction n rule: formatNumber.induct)
  case (1 n)
  show ?case
  proof (cases "n < 10")
    case True
    then show ?thesis using digitChar_digit [of n] by (subst formatNumber.simps) simp
  next
    case False
    have "n mod 10 < 10" by simp
    then have "digitChar (n mod 10) \<in> set ''0123456789''" by (rule digitChar_digit)
    with False 1 show ?thesis by (subst formatNumber.simps) simp
  qed
qed

lemma formatNumber_no_space: "CHR '' '' \<notin> set (formatNumber n)"
  using formatNumber_digits [of n] by auto

lemma formatNumber_no_newline: "CHR ''\<newline>'' \<notin> set (formatNumber n)"
  using formatNumber_digits [of n] by auto

lemma token_serverName: "token nm \<Longrightarrow> token (nm @ ''-'' @ formatNumber i)"
  by (simp add: token_def formatNumber_no_space formatNumber_no_newline)

lemma token_address: "token addr \<Longrightarrow> token (addr @ '':80'')"
  by (simp add: token_def)

lemma token_matchId: "token nm \<Longrightarrow> token (nm @ ''_req'')"
  by (simp add: token_def)

lemma serverLine_words:
  "serverLine nm i addr = ''    '' @ joinWords (serverDirective nm i addr)"
  by (simp add: serverLine_def serverDirective_def)

lemma serverDirective_tokens:
  "token nm \<Longrightarrow> token addr \<Longrightarrow> \<forall>w \<in> set (serverDirective nm i addr). token w"
  using token_serverName [of nm i] token_address [of addr]
  by (simp add: serverDirective_def) (simp add: token_def)

lemma serverLine_configWords:
  assumes "token nm" "token addr"
  shows "configWords (serverLine nm i addr) = serverDirective nm i addr"
  using configWords_line [OF indent4 serverDirective_tokens [OF assms]]
  by (simp only: serverLine_words)

lemma serverLine_no_newline:
  assumes "token nm" "token addr"
  shows "CHR ''\<newline>'' \<notin> set (serverLine nm i addr)"
proof -
  have "CHR ''\<newline>'' \<notin> set (joinWords (serverDirective nm i addr))"
    by (rule joinWords_no_newline [OF serverDirective_tokens [OF assms]])
  then show ?thesis by (simp add: serverLine_words)
qed

lemma serverDirective_nonempty: "serverDirective nm i addr \<noteq> []"
  by (simp add: serverDirective_def)

lemma header_words:
  "token nm \<Longrightarrow> configWords (''backend '' @ nm) = [''backend'', nm]"
proof -
  assume "token nm"
  then have "\<forall>w \<in> set [''backend'', nm]. token w" by (simp add: token_def)
  from configWords_line [of "[]", OF _ this] show ?thesis by simp
qed

lemma balance_words:
  "token b \<Longrightarrow> configWords (''    balance '' @ b) = [''balance'', b]"
proof -
  assume "token b"
  then have "\<forall>w \<in> set [''balance'', b]. token w" by (simp add: token_def)
  from configWords_line [OF indent4 this] show ?thesis by simp
qed

lemma cookie_words:
  "configWords ''    cookie SERVERID insert indirect nocache'' =
     [''cookie'', ''SERVERID'', ''insert'', ''indirect'', ''nocache'']"
  by (simp add: configWords_def)

lemma empty_words: "configWords [] = []"
  by (simp add: configWords_def)

lemma backendBlock_no_newline:
  assumes "token b" "token (name s)" "\<forall>a \<in> set (children s). token a"
  shows "\<forall>l \<in> set (backendBlock b s). CHR ''\<newline>'' \<notin> set l"
proof
  fix l assume "l \<in> set (backendBlock b s)"
  then consider "l = ''backend '' @ name s" | "l = ''    balance '' @ b"
    | "l = ''    cookie SERVERID insert indirect nocache''" | "l = []"
    | i where "i < length (children s)" "l = serverLine (name s) i (children s ! i)"
    unfolding backendBlock_def by auto
  then show "CHR ''\<newline>'' \<notin> set l"
  proof cases
    case 1
    with assms(2) show ?thesis by (simp add: token_def)
  next
    case 2
    with assms(1) show ?thesis by (simp add: token_def)
  next
    case 3
    then show ?thesis by simp
  next
    case 4
    then show ?thesis by simp
  next
    case 5
    with assms(2,3) show ?thesis by (simp add: serverLine_no_newline)
  qed
qed

lemma backendBlock_directives:
  assumes "token b" "token (name s)" "\<forall>a \<in> set (children s). token a"
  shows "filter (\<lambda>d. d \<noteq> []) (map configWords (backendBlock b s)) = backendDirectives b s"
proof -
  let ?srv = "\<lambda>i. serverLine (name s) i (children s ! i)"
  let ?dir = "\<lambda>i. serverDirective (name s) i (children s ! i)"
  have servers: "map configWords (map ?srv [0..<length (children s)])
      = map ?dir [0..<length (children s)]"
    using assms by (simp add: serverLine_configWords)
  have keep: "filter (\<lambda>d. d \<noteq> []) (map ?dir [0..<length (children s)])
      = map ?dir [0..<length (children s)]"
    by (simp add: filter_id_conv serverDirective_nonempty)
  have "map configWords (backendBlock b s) =
      [[''backend'', name s], [''balance'', b],
       [''cookie'', ''SERVERID'', ''insert'', ''indirect'', ''nocache'']] @
      map ?dir [0..<length (children s)] @ [[]]"
    unfolding backendBlock_def map_append servers
    by (simp only: list.map header_words [OF assms(2)] balance_words [OF assms(1)]
        cookie_words empty_words)
  then show ?thesis
    unfolding backendDirectives_def by (simp only: filter_append keep) simp
qed

lemma backend_lines_no_newline:
  "token b \<Longrightarrow> \<forall>s \<in> set ss. token (name s) \<and> (\<forall>a \<in> set (children s). token a) \<Longrightarrow>
   \<forall>l \<in> set (concat (map (backendBlock b) ss)). CHR ''\<newline>'' \<notin> set l"
proof (induction ss)
  case Nil
  then show ?case by simp
next
  case (Cons s ss)
  from Cons.prems have "\<forall>l \<in> set (backendBlock b s). CHR ''\<newline>'' \<notin> set l"
    by (intro backendBlock_no_newline) simp_all
  moreover from Cons have "\<forall>l \<in> set (concat (map (backendBlock b) ss)). CHR ''\<newline>'' \<notin> set l"
    by simp
  ultimately show ?case by (simp add: ball_Un)
qed

lemma backend_lines_directives:
  "token b \<Longrightarrow> \<forall>s \<in> set ss. token (name s) \<and> (\<forall>a \<in> set (children s). token a) \<Longrightarrow>
   filter (\<lambda>d. d \<noteq> []) (map configWords (concat (map (backendBlock b) ss)))
     = concat (map (backendDirectives b) ss)"
proof (induction ss)
  case Nil
  then show ?case by simp
next
  case (Cons s ss)
  from Cons.prems
  have "filter (\<lambda>d. d \<noteq> []) (map configWords (backendBlock b s)) = backendDirectives b s"
    by (intro backendBlock_directives) simp_all
  moreover from Cons
  have "filter (\<lambda>d. d \<noteq> []) (map configWords (concat (map (backendBlock b) ss)))
     = concat (map (backendDirectives b) ss)"
    by simp
  ultimately show ?case by simp
qed

lemma backend_section_directives:
  assumes "token b" "\<forall>s \<in> set ss. token (name s) \<and> (\<forall>a \<in> set (children s). token a)"
  shows "directivesOf (joinLines (concat (map (backendBlock b) ss)))
           = concat (map (backendDirectives b) ss)"
  using directivesOf_joinLines [OF backend_lines_no_newline [OF assms]]
    backend_lines_directives [OF assms]
  by simp

lemma aclLine_words: "aclLine d s = ''    '' @ joinWords (aclDirective d s)"
  by (simp add: aclLine_def aclDirective_def)

lemma useBackendLine_words: "useBackendLine s = ''    '' @ joinWords (useBackendDirective s)"
  by (simp add: useBackendLine_def useBackendDirective_def)

lemma aclDirective_tokens:
  assumes "token d" "token (name s)"
  shows "\<forall>w \<in> set (aclDirective d s). token w"
  using assms token_matchId [OF assms(2)]
  by (simp add: aclDirective_def) (simp add: token_def)

lemma useBackendDirective_tokens:
  assumes "token (name s)"
  shows "\<forall>w \<in> set (useBackendDirective s). token w"
  using assms token_matchId [OF assms]
  by (simp add: useBackendDirective_def) (simp add: token_def)

lemma aclLine_configWords:
  assumes "token d" "token (name s)"
  shows "configWords (aclLine d s) = aclDirective d s"
  using configWords_line [OF indent4 aclDirective_tokens [OF assms]]
  by (simp only: aclLine_words)

lemma useBackendLine_configWords:
  assumes "token (name s)"
  shows "configWords (useBackendLine s) = useBackendDirective s"
  using configWords_line [OF indent4 useBackendDirective_tokens [OF assms]]
  by (simp only: useBackendLine_words)

lemma aclLine_no_newline:
  assumes "token d" "token (name s)"
  shows "CHR ''\<newline>'' \<notin> set (aclLine d s)"
proof -
  have "CHR ''\<newline>'' \<notin> set (joinWords (aclDirective d s))"
    by (rule joinWords_no_newline [OF aclDirective_tokens [OF assms]])
  then show ?thesis by (simp add: aclLine_words)
qed

lemma useBackendLine_no_newline:
  assumes "token (name s)"
  shows "CHR ''\<newline>'' \<notin> set (useBackendLine s)"
proof -
  have "CHR ''\<newline>'' \<notin> set (joinWords (useBackendDirective s))"
    by (rule joinWords_no_newline [OF useBackendDirective_tokens [OF assms]])
  then show ?thesis by (simp add: useBackendLine_words)
qed

lemma frontend_section_directives:
  assumes "\<forall>(d, s) \<in> set dm. token d \<and> token (name s)"
  shows "directivesOf (joinLines (map (\<lambda>(d, s). aclLine d s) dm @
                                  map (\<lambda>(d, s). useBackendLine s) dm))
           = map (\<lambda>(d, s). aclDirective d s) dm @ map (\<lambda>(d, s). useBackendDirective s) dm"
proof -
  let ?ls = "map (\<lambda>(d, s). aclLine d s) dm @ map (\<lambda>(d, s). useBackendLine s) dm"
  have "\<forall>l \<in> set ?ls. CHR ''\<newline>'' \<notin> set l"
    using assms by (auto simp: aclLine_no_newline useBackendLine_no_newline)
  then have "directivesOf (joinLines ?ls) = filter (\<lambda>d. d \<noteq> []) (map configWords ?ls)"
    by (rule directivesOf_joinLines)
  moreover have "map configWords (map (\<lambda>(d, s). aclLine d s) dm)
      = map (\<lambda>(d, s). aclDirective d s) dm"
    using assms by (auto simp: aclLine_configWords)
  moreover have "map configWords (map (\<lambda>(d, s). useBackendLine s) dm)
      = map (\<lambda>(d, s). useBackendDirective s) dm"
    using assms by (auto simp: useBackendLine_configWords)
  moreover have "filter (\<lambda>d. d \<noteq> []) (map (\<lambda>(d, s). aclDirective d s) dm)
      = map (\<lambda>(d, s). aclDirective d s) dm"
    by (auto simp: filter_id_conv aclDirective_def)
  moreover have "filter (\<lambda>d. d \<noteq> []) (map (\<lambda>(d, s). useBackendDirective s) dm)
      = map (\<lambda>(d, s). useBackendDirective s) dm"
    by (auto simp: filter_id_conv useBackendDirective_def)
  ultimately show ?thesis by (simp only: map_append filter_append)
qed

lemma use_backend_of_acls:
  "filter (hasKeyword ''use_backend'') (map (\<lambda>(d, s). aclDirective d s) dm) = []"
  by (induction dm) (auto simp: aclDirective_def)

lemma use_backend_of_rules:
  "filter (hasKeyword ''use_backend'') (map (\<lambda>(d, s). useBackendDirective s) dm)
     = map (\<lambda>(d, s). useBackendDirective s) dm"
  by (induction dm) (auto simp: useBackendDirective_def)

lemma rule_targets:
  "concat (map firstArg (map (\<lambda>(d, s). useBackendDirective s) dm))
     = map (\<lambda>(d, s). name s) dm"
  by (induction dm) (auto simp: useBackendDirective_def)

lemma backend_of_block:
  "filter (hasKeyword ''backend'') (backendDirectives b s) = [[''backend'', name s]]"
proof -
  have "filter (hasKeyword ''backend'')
      (map (\<lambda>i. serverDirective (name s) i (children s ! i)) [0..<length (children s)]) = []"
    by (simp add: filter_empty_conv serverDirective_def)
  then show ?thesis by (simp add: backendDirectives_def)
qed

lemma backend_of_blocks:
  "filter (hasKeyword ''backend'') (concat (map (backendDirectives b) ss))
     = map (\<lambda>s. [''backend'', name s]) ss"
  by (induction ss) (simp_all add: backend_of_block)

lemma header_targets:
  "concat (map firstArg (map (\<lambda>s. [''backend'', name s]) ss)) = map name ss"
  by (induction ss) simp_all


lemma wellFormed_services:
  assumes "\<forall>(d, s) \<in> set dm. token d \<and> wellFormedService s"
  shows "\<forall>s \<in> set (map snd dm). token (name s) \<and> (\<forall>a \<in> set (children s). token a)"
  using assms by (auto simp: wellFormedService_def list_all_iff)

lemma wellFormed_list:
  "list_all wellFormedService ss \<Longrightarrow>
   \<forall>s \<in> set ss. token (name s) \<and> (\<forall>a \<in> set (children s). token a)"
  by (simp add: list_all_iff wellFormedService_def)

lemma wellFormed_entries:
  assumes "\<forall>(d, s) \<in> set dm. token d \<and> wellFormedService s"
  shows "\<forall>(d, s) \<in> set dm. token d \<and> token (name s)"
  using assms by (auto simp: wellFormedService_def)

lemma use_backend_of_block:
  "filter (hasKeyword ''use_backend'') (backendDirectives b s) = []"
  by (simp add: backendDirectives_def filter_empty_conv serverDirective_def)

lemma use_backend_of_blocks:
  "filter (hasKeyword ''use_backend'') (concat (map (backendDirectives b) ss)) = []"
  by (induction ss) (simp_all add: use_backend_of_block)

lemma backend_of_acls:
  "filter (hasKeyword ''backend'') (map (\<lambda>(d, s). aclDirective d s) dm) = []"
  by (induction dm) (auto simp: aclDirective_def)

lemma backend_of_rules:
  "filter (hasKeyword ''backend'') (map (\<lambda>(d, s). useBackendDirective s) dm) = []"
  by (induction dm) (auto simp: useBackendDirective_def)

lemma snd_names: "map name (map snd dm) = map (\<lambda>(d, s). name s) dm"
  by (induction dm) auto

lemma snd_headers:
  "map (\<lambda>s. [''backend'', name s]) (map snd dm) = map (\<lambda>(d, s). [''backend'', name s]) dm"
  by (induction dm) auto

lemma header_targets_entries:
  "concat (map firstArg (map (\<lambda>(d, s). [''backend'', name s]) dm))
     = map (\<lambda>(d, s). name s) dm"
  by (induction dm) auto

section \<open>Reading the whole document back\<close>

lemma splitOn_nonempty: "splitOn c xs \<noteq> []"
  by (induction xs) (auto split: list.splits)

lemma splitOn_append_any:
  "splitOn c (a @ c # rest) = splitOn c a @ splitOn c rest"
proof (induction a)
  case Nil
  then show ?case by simp
next
  case (Cons x a)
  obtain w ws where "splitOn c a = w # ws"
    using splitOn_nonempty [of c a] by (cases "splitOn c a") auto
  with Cons show ?case by simp
qed

lemma configLines_preamble:
  assumes "\<forall>l \<in> set ls. CHR ''\<newline>'' \<notin> set l"
  shows "configLines (p @ joinLines ls) = configLines p @ ls"
proof (cases ls)
  case Nil
  then show ?thesis by (simp add: joinLines_Nil)
next
  case (Cons l ls')
  with assms have "splitOn CHR ''\<newline>'' (l @ joinLines ls') = l # ls'"
    by (intro splitOn_joinLines) simp_all
  with Cons show ?thesis
    by (simp add: configLines_def joinLines_Cons splitOn_append_any)
qed

lemma directivesOf_preamble:
  assumes "\<forall>l \<in> set ls. CHR ''\<newline>'' \<notin> set l"
  shows "directivesOf (p @ joinLines ls) =
           directivesOf p @ filter (\<lambda>d. d \<noteq> []) (map configWords ls)"
  by (simp add: directivesOf_def configLines_preamble [OF assms])

lemma frontend_lines_no_newline:
  assumes "\<forall>(d, s) \<in> set dm. token d \<and> token (name s)"
  shows "\<forall>l \<in> set (map (\<lambda>(d, s). aclLine d s) dm @ map (\<lambda>(d, s). useBackendLine s) dm).
           CHR ''\<newline>'' \<notin> set l"
  using assms by (auto simp: aclLine_no_newline useBackendLine_no_newline)

lemma frontend_lines_directives:
  assumes "\<forall>(d, s) \<in> set dm. token d \<and> token (name s)"
  shows "filter (\<lambda>d. d \<noteq> [])
           (map configWords
              (map (\<lambda>(d, s). aclLine d s) dm @ map (\<lambda>(d, s). useBackendLine s) dm))
         = map (\<lambda>(d, s). aclDirective d s) dm @ map (\<lambda>(d, s). useBackendDirective s) dm"
  using frontend_section_directives [OF assms]
    directivesOf_joinLines [OF frontend_lines_no_newline [OF assms]]
  by simp

lemma routingDocument_lines:
  "routingDocument render templ b dm =
     render templ [(''port'', exposedPort)] @
     joinLines ((map (\<lambda>(d, s). aclLine d s) dm @ map (\<lambda>(d, s). useBackendLine s) dm) @
                [[]] @ concat (map (backendBlock b) (map snd dm)))"
  by (simp add: routingDocument_def joinLines_append joinLines_Cons joinLines_Nil snd_blocks
      del: map_map)

lemma routingDocument_directives:
  assumes "\<forall>(d, s) \<in> set dm. token d \<and> wellFormedService s" and "token b"
  shows "directivesOf (routingDocument render templ b dm) =
           directivesOf (render templ [(''port'', exposedPort)]) @
           (map (\<lambda>(d, s). aclDirective d s) dm @ map (\<lambda>(d, s). useBackendDirective s) dm) @
           concat (map (backendDirectives b) (map snd dm))"
proof -
  let ?front = "map (\<lambda>(d, s). aclLine d s) dm @ map (\<lambda>(d, s). useBackendLine s) dm"
  let ?blocks = "concat (map (backendBlock b) (map snd dm))"
  note entries = wellFormed_entries [OF assms(1)]
  note services = wellFormed_services [OF assms(1)]
  have "\<forall>l \<in> set (?front @ [[]] @ ?blocks). CHR ''\<newline>'' \<notin> set l"
    using frontend_lines_no_newline [OF entries]
      backend_lines_no_newline [OF assms(2) services]
    by (simp add: ball_Un)
  from directivesOf_preamble [OF this]
  have "directivesOf (routingDocument render templ b dm) =
      directivesOf (render templ [(''port'', exposedPort)]) @
      filter (\<lambda>d. d \<noteq> []) (map configWords (?front @ [[]] @ ?blocks))"
    by (simp only: routingDocument_lines)
  also have "filter (\<lambda>d. d \<noteq> []) (map configWords (?front @ [[]] @ ?blocks)) =
      filter (\<lambda>d. d \<noteq> []) (map configWords ?front) @
      filter (\<lambda>d. d \<noteq> []) (map configWords ?blocks)"
    by (simp add: empty_words)
  finally show ?thesis
    by (simp only: frontend_lines_directives [OF entries]
        backend_lines_directives [OF assms(2) services])
qed

lemma routingDocument_use_backend:
  assumes "\<forall>(d, s) \<in> set dm. token d \<and> wellFormedService s" and "token b"
  shows "directivesWith ''use_backend'' (routingDocument render templ b dm) =
           directivesWith ''use_backend'' (render templ [(''port'', exposedPort)]) @
           map (\<lambda>(d, s). useBackendDirective s) dm"
  unfolding directivesWith_def routingDocument_directives [OF assms]
  by (simp only: filter_append use_backend_of_acls use_backend_of_rules use_backend_of_blocks
      append_Nil append_Nil2)

lemma routingDocument_backend:
  assumes "\<forall>(d, s) \<in> set dm. token d \<and> wellFormedService s" and "token b"
  shows "directivesWith ''backend'' (routingDocument render templ b dm) =
           directivesWith ''backend'' (render templ [(''port'', exposedPort)]) @
           map (\<lambda>(d, s). [''backend'', name s]) dm"
  unfolding directivesWith_def routingDocument_directives [OF assms]
  by (simp only: filter_append backend_of_acls backend_of_rules backend_of_blocks snd_headers
      append_Nil append_Nil2)

lemma routingDocument_use_backend_targets:
  assumes "\<forall>(d, s) \<in> set dm. token d \<and> wellFormedService s" and "token b"
  shows "targetsOf ''use_backend'' (routingDocument render templ b dm) =
           targetsOf ''use_backend'' (render templ [(''port'', exposedPort)]) @
           map (\<lambda>(d, s). name s) dm"
  unfolding targetsOf_def routingDocument_use_backend [OF assms]
  by (simp only: map_append concat_append rule_targets)

lemma routingDocument_backend_targets:
  assumes "\<forall>(d, s) \<in> set dm. token d \<and> wellFormedService s" and "token b"
  shows "targetsOf ''backend'' (routingDocument render templ b dm) =
           targetsOf ''backend'' (render templ [(''port'', exposedPort)]) @
           map (\<lambda>(d, s). name s) dm"
  unfolding targetsOf_def routingDocument_backend [OF assms]
  by (simp only: map_append concat_append header_targets_entries)

section \<open>What the generator reads of its inputs\<close>

lemma backendBlock_reads:
  "sameSnapshot s' s \<Longrightarrow> backendBlock b s' = backendBlock b s"
  by (simp add: backendBlock_def sameSnapshot_def)

lemma sameEntries_keys: "sameEntries dm' dm \<Longrightarrow> map fst dm' = map fst dm"
  unfolding sameEntries_def by (induction rule: list_all2_induct) simp_all

lemma sameEntries_acls:
  "sameEntries dm' dm \<Longrightarrow>
   map (\<lambda>(d, s). aclLine d s) dm' = map (\<lambda>(d, s). aclLine d s) dm"
  unfolding sameEntries_def
  by (induction rule: list_all2_induct)
     (simp_all add: case_prod_unfold aclLine_def sameSnapshot_def)

lemma sameEntries_rules:
  "sameEntries dm' dm \<Longrightarrow>
   map (\<lambda>(d, s). useBackendLine s) dm' = map (\<lambda>(d, s). useBackendLine s) dm"
  unfolding sameEntries_def
  by (induction rule: list_all2_induct)
     (simp_all add: case_prod_unfold useBackendLine_def sameSnapshot_def)

lemma sameEntries_blocks:
  "sameEntries dm' dm \<Longrightarrow>
   map (backendBlock b) (map snd dm') = map (backendBlock b) (map snd dm)"
  unfolding sameEntries_def
  by (induction rule: list_all2_induct) (simp_all add: backendBlock_reads)

section \<open>The backend generator\<close>

text \<open>
  C2. For every list of services, given as an array or as a single service, and every
  balance token \<open>b\<close>, \<open>createBackendConfigs\<close> returns the backend blocks of the
  services in input order, one block per service. Each block consists of the header
  line \<^verbatim>\<open>backend <name>\<close>, the line \<^verbatim>\<open>balance <b>\<close>, the fixed cookie line, and
  one server line per endpoint of the snapshot in snapshot order; the server line of
  endpoint \<open>i\<close> (from 0) carries the id \<^verbatim>\<open><name>-<i>\<close>, the address of endpoint \<open>i\<close>,
  the port 80 and the same id as cookie value. When the balance token, the names and
  the addresses are words of the configuration grammar, the text reads back as exactly
  these directives.
\<close>

theorem createBackendConfigs_blocks:
  "createBackendConfigs services b =
     joinLines (concat (map (backendBlock b) (toArray services))) \<and>
   (token b \<and> list_all wellFormedService (toArray services) \<longrightarrow>
      directivesOf (createBackendConfigs services b) =
        concat (map (backendDirectives b) (toArray services)))"
proof (intro conjI impI)
  show "createBackendConfigs services b =
      joinLines (concat (map (backendBlock b) (toArray services)))"
    by (rule createBackendConfigs_lines)
next
  assume "token b \<and> list_all wellFormedService (toArray services)"
  then have b: "token b" and ss: "list_all wellFormedService (toArray services)"
    by simp_all
  show "directivesOf (createBackendConfigs services b) =
      concat (map (backendDirectives b) (toArray services))"
    unfolding createBackendConfigs_lines
    by (rule backend_section_directives [OF b wellFormed_list [OF ss]])
qed

text \<open>
  The scenario of the specification: the service \<open>web\<close> with two endpoints. The balance
  token of the caller appears as it was given.
\<close>

theorem createBackendConfigs_blocks_witness:
  "createBackendConfigs
     (Many [\<lparr>name = ''web'', children = [''10.0.0.1'', ''10.0.0.2''], allowedInbound = []\<rparr>])
     ''round-robin'' =
   ''\<newline>backend web\<newline>    balance round-robin\<newline>    cookie SERVERID insert indirect nocache\<newline>    server web-0 10.0.0.1:80 check resolvers dns cookie web-0\<newline>    server web-1 10.0.0.2:80 check resolvers dns cookie web-1\<newline>'' \<and>
   token ''round-robin'' \<and>
   list_all wellFormedService (toArray (Many
     [\<lparr>name = ''web'', children = [''10.0.0.1'', ''10.0.0.2''], allowedInbound = []\<rparr>])) \<and>
   directivesOf (createBackendConfigs
     (Many [\<lparr>name = ''web'', children = [''10.0.0.1'', ''10.0.0.2''], allowedInbound = []\<rparr>])
     ''round-robin'') =
   [[''backend'', ''web''], [''balance'', ''round-robin''],
    [''cookie'', ''SERVERID'', ''insert'', ''indirect'', ''nocache''],
    [''server'', ''web-0'', ''10.0.0.1:80'', ''check'', ''resolvers'', ''dns'', ''cookie'', ''web-0''],
    [''server'', ''web-1'', ''10.0.0.2:80'', ''check'', ''resolvers'', ''dns'', ''cookie'', ''web-1'']]"
proof -
  let ?ss = "Many [\<lparr>name = ''web'', children = [''10.0.0.1'', ''10.0.0.2''], allowedInbound = []\<rparr>]"
  have b: "token ''round-robin''" by (simp add: token_def)
  have w: "list_all wellFormedService (toArray ?ss)"
    by (simp add: wellFormedService_def token_def)
  note c = createBackendConfigs_blocks [of ?ss "''round-robin''"]
  from c have out: "createBackendConfigs ?ss ''round-robin'' =
      joinLines (concat (map (backendBlock ''round-robin'') (toArray ?ss)))"
    by (rule conjunct1)
  from c b w have dirs: "directivesOf (createBackendConfigs ?ss ''round-robin'') =
      concat (map (backendDirectives ''round-robin'') (toArray ?ss))"
    by blast
  have "createBackendConfigs ?ss ''round-robin'' =
   ''\<newline>backend web\<newline>    balance round-robin\<newline>    cookie SERVERID insert indirect nocache\<newline>    server web-0 10.0.0.1:80 check resolvers dns cookie web-0\<newline>    server web-1 10.0.0.2:80 check resolvers dns cookie web-1\<newline>''"
    unfolding out
    by (simp add: joinLines_def backendBlock_def serverLine_def formatNumber_0 formatNumber_1
        upt_rec)
  moreover have "directivesOf (createBackendConfigs ?ss ''round-robin'') =
   [[''backend'', ''web''], [''balance'', ''round-robin''],
    [''cookie'', ''SERVERID'', ''insert'', ''indirect'', ''nocache''],
    [''server'', ''web-0'', ''10.0.0.1:80'', ''check'', ''resolvers'', ''dns'', ''cookie'', ''web-0''],
    [''server'', ''web-1'', ''10.0.0.2:80'', ''check'', ''resolvers'', ''dns'', ''cookie'', ''web-1'']]"
    unfolding dirs
    by (simp add: backendDirectives_def serverDirective_def formatNumber_0 formatNumber_1 upt_rec)
  ultimately show ?thesis using b w by simp
qed

text \<open>
  C6. A service whose endpoint snapshot is empty still gets its backend block: header,
  balance directive and cookie directive, closed by a newline, with no server line. This
  holds for a single service and for a service at any position of an array; the blocks
  of the services before and after it are as they are without it. The generator has no
  error result.
\<close>

theorem createBackendConfigs_no_endpoints:
  "children s = [] \<Longrightarrow>
   createBackendConfigs (One s) b =
     ''\<newline>backend '' @ name s @ ''\<newline>    balance '' @ b @
     ''\<newline>    cookie SERVERID insert indirect nocache\<newline>'' \<and>
   createBackendConfigs (Many (pre @ s # post)) b =
     createBackendConfigs (Many pre) b @
     (''\<newline>backend '' @ name s @ ''\<newline>    balance '' @ b @
      ''\<newline>    cookie SERVERID insert indirect nocache\<newline>'') @
     createBackendConfigs (Many post) b"
  by (simp add: createBackendConfigs_split createBackendConfigs_One backendPattern_def
      joinLines_Nil)

theorem createBackendConfigs_no_endpoints_witness:
  "children \<lparr>name = ''idle'', children = [], allowedInbound = []\<rparr> = [] \<and>
   createBackendConfigs (One \<lparr>name = ''idle'', children = [], allowedInbound = []\<rparr>)
     ''roundrobin'' =
     ''\<newline>backend idle\<newline>    balance roundrobin\<newline>    cookie SERVERID insert indirect nocache\<newline>'' \<and>
   createBackendConfigs
     (Many [\<lparr>name = ''web'', children = [''10.0.0.1''], allowedInbound = []\<rparr>,
            \<lparr>name = ''idle'', children = [], allowedInbound = []\<rparr>]) ''roundrobin'' =
     ''\<newline>backend web\<newline>    balance roundrobin\<newline>    cookie SERVERID insert indirect nocache\<newline>    server web-0 10.0.0.1:80 check resolvers dns cookie web-0\<newline>\<newline>backend idle\<newline>    balance roundrobin\<newline>    cookie SERVERID insert indirect nocache\<newline>''"
  using createBackendConfigs_no_endpoints
    [of "\<lparr>name = ''idle'', children = [], allowedInbound = []\<rparr>" "''roundrobin''"
        "[\<lparr>name = ''web'', children = [''10.0.0.1''], allowedInbound = []\<rparr>]" "[]"]
  by (simp add: createBackendConfigs_lines joinLines_def backendBlock_def serverLine_def
      formatNumber_0)

text \<open>
  C7. When the snapshot of the service at one position of the array grows from \<open>[a]\<close>
  to \<open>[a, b]\<close> and nothing else changes, the text before the block of that service
  and the text after it are the same in both generations, and the block itself differs
  by one more server line, with the id \<^verbatim>\<open><name>-1\<close> and the address \<open>b\<close>, after the
  line of \<^verbatim>\<open><name>-0\<close>.
\<close>

theorem createBackendConfigs_endpoint_added:
  "children s = [a] \<Longrightarrow>
   createBackendConfigs (Many (pre @ s # post)) bal =
     createBackendConfigs (Many pre) bal @
     (backendPattern (name s) bal @
      ''\<newline>    server '' @ name s @ ''-0 '' @ a @
        '':80 check resolvers dns cookie '' @ name s @ ''-0'' @
      ''\<newline>'') @
     createBackendConfigs (Many post) bal \<and>
   createBackendConfigs (Many (pre @ s\<lparr>children := [a, b]\<rparr> # post)) bal =
     createBackendConfigs (Many pre) bal @
     (backendPattern (name s) bal @
      ''\<newline>    server '' @ name s @ ''-0 '' @ a @
        '':80 check resolvers dns cookie '' @ name s @ ''-0'' @
      ''\<newline>    server '' @ name s @ ''-1 '' @ b @
        '':80 check resolvers dns cookie '' @ name s @ ''-1'' @
      ''\<newline>'') @
     createBackendConfigs (Many post) bal"
  by (simp add: createBackendConfigs_split createBackendConfigs_One joinLines_def serverLine_def
      formatNumber_0 formatNumber_1 upt_rec [of 0] upt_rec [of 1] upt_rec [of "Suc 0"])

theorem createBackendConfigs_endpoint_added_witness:
  "children \<lparr>name = ''web'', children = [''10.0.0.1''], allowedInbound = []\<rparr> = [''10.0.0.1''] \<and>
   createBackendConfigs
     (Many [\<lparr>name = ''web'', children = [''10.0.0.1''], allowedInbound = []\<rparr>,
            \<lparr>name = ''db'', children = [''10.0.1.1''], allowedInbound = []\<rparr>]) ''roundrobin'' =
   ''\<newline>backend web\<newline>    balance roundrobin\<newline>    cookie SERVERID insert indirect nocache\<newline>    server web-0 10.0.0.1:80 check resolvers dns cookie web-0\<newline>\<newline>backend db\<newline>    balance roundrobin\<newline>    cookie SERVERID insert indirect nocache\<newline>    server db-0 10.0.1.1:80 check resolvers dns cookie db-0\<newline>'' \<and>
   createBackendConfigs
     (Many [\<lparr>name = ''web'', children = [''10.0.0.1'', ''10.0.0.2''], allowedInbound = []\<rparr>,
            \<lparr>name = ''db'', children = [''10.0.1.1''], allowedInbound = []\<rparr>]) ''roundrobin'' =
   ''\<newline>backend web\<newline>    balance roundrobin\<newline>    cookie SERVERID insert indirect nocache\<newline>    server web-0 10.0.0.1:80 check resolvers dns cookie web-0\<newline>    server web-1 10.0.0.2:80 check resolvers dns cookie web-1\<newline>\<newline>backend db\<newline>    balance roundrobin\<newline>    cookie SERVERID insert indirect nocache\<newline>    server db-0 10.0.1.1:80 check resolvers dns cookie db-0\<newline>''"
proof -
  have db: "createBackendConfigs
      (Many [\<lparr>name = ''db'', children = [''10.0.1.1''], allowedInbound = []\<rparr>]) ''roundrobin'' =
      ''\<newline>backend db\<newline>    balance roundrobin\<newline>    cookie SERVERID insert indirect nocache\<newline>    server db-0 10.0.1.1:80 check resolvers dns cookie db-0\<newline>''"
    by (simp add: createBackendConfigs_lines joinLines_def backendBlock_def serverLine_def
        formatNumber_0)
  have none: "createBackendConfigs (Many []) ''roundrobin'' = []"
    by (simp add: createBackendConfigs_lines joinLines_def)
  from createBackendConfigs_endpoint_added
    [of "\<lparr>name = ''web'', children = [''10.0.0.1''], allowedInbound = []\<rparr>"
        "''10.0.0.1''" "[]"
        "[\<lparr>name = ''db'', children = [''10.0.1.1''], allowedInbound = []\<rparr>]"
        "''roundrobin''" "''10.0.0.2''"]
  show ?thesis by (simp add: db none backendPattern_def)
qed

section \<open>The frontend generators\<close>





section \<open>The document\<close>

text \<open>
  C9, as the code has it. For every frontend text and backend text, \<open>createConfigFiles\<close>
  returns a mapping with the single key \<open>configPath\<close>. Its text is the rendered
  preamble (the template rendered with the view \<^verbatim>\<open>{port: exposedPort}\<close>), directly
  followed by the frontend text, then one newline, then the backend text. The function
  puts no newline between the preamble and the frontend text.
\<close>

theorem createConfigFiles_document:
  "dom (createConfigFiles render templ frontendConfig backendConfig) = {configPath} \<and>
   createConfigFiles render templ frontendConfig backendConfig configPath =
     Some (render templ [(''port'', exposedPort)] @ frontendConfig @ ''\<newline>'' @ backendConfig)"
  by (simp add: createConfigFiles_def Let_def)

theorem createConfigFiles_document_witness:
  "createConfigFiles mustacheRender ''frontend http-in\<newline>    bind *:{{port}}''
      ''\<newline>    default_backend web'' ''\<newline>backend web'' configPath =
   Some ''frontend http-in\<newline>    bind *:80\<newline>    default_backend web\<newline>\<newline>backend web''"
  using createConfigFiles_document
    [of mustacheRender "''frontend http-in\<newline>    bind *:{{port}}''"
        "''\<newline>    default_backend web''" "''\<newline>backend web''"]
  by (simp add: exposedPort_def render_example)

text \<open>
  C9 as stated, with a newline between each of the three parts, fails: for the frontend
  text \<^verbatim>\<open>default_backend web\<close> (with the newline that opens the pattern) and a
  backend text, the document is not the preamble, a newline, the frontend text, a
  newline and the backend text.
\<close>

theorem createConfigFiles_separator_counterexample:
  "createConfigFiles mustacheRender ''frontend http-in\<newline>    bind *:{{port}}''
      ''\<newline>    default_backend web'' ''\<newline>backend web'' configPath \<noteq>
   Some (mustacheRender ''frontend http-in\<newline>    bind *:{{port}}'' [(''port'', exposedPort)] @
         ''\<newline>'' @ ''\<newline>    default_backend web'' @ ''\<newline>'' @ ''\<newline>backend web'')"
  by (simp add: createConfigFiles_def Let_def exposedPort_def render_example)

section \<open>The entry points\<close>




text \<open>
  C10. For every domain map, either \<open>withURLrouting\<close> raises a \<^verbatim>\<open>TypeError\<close> and
  deploys no document (a map with the own key \<^verbatim>\<open>hasOwnProperty\<close>), or it deploys
  to every replica the document \<open>routingDocument\<close>: the rendered preamble, one acl
  line and one use_backend line per entry, and one backend block per entry, all in
  iteration order, the k-th use_backend line and the k-th block made from the backend
  name of the k-th entry. When the domains, service names, addresses and the balance
  token are words of the configuration grammar, the deployed document reads back so:
  after the directives of the preamble, the targets of its use_backend directives and
  the names of its backend headers are the same list, the backend names of the
  entries in iteration order. So the k-th use_backend directive that the entry point
  emits names the backend of the k-th header it emits, and every use_backend target
  of the document that is not the preamble's own is declared in the document.
\<close>

theorem withURLrouting_backends_declared:
  assumes "distinct (map fst dm)"
  shows "(''hasOwnProperty'' \<in> set (map fst dm) \<longrightarrow>
            withURLrouting render templ n dm bal = Inl TypeError) \<and>
         (''hasOwnProperty'' \<notin> set (map fst dm) \<longrightarrow>
            withURLrouting render templ n dm bal =
              Inr (createHapService n (Many (map snd dm))
                     [configPath \<mapsto> routingDocument render templ (balanceOrDefault bal) dm]) \<and>
            ((\<forall>(d, s) \<in> set dm. token d \<and> wellFormedService s) \<and>
               token (balanceOrDefault bal) \<longrightarrow>
               targetsOf ''use_backend'' (routingDocument render templ (balanceOrDefault bal) dm)
                 = targetsOf ''use_backend'' (render templ [(''port'', exposedPort)]) @
                   map (\<lambda>(d, s). name s) dm \<and>
               targetsOf ''backend'' (routingDocument render templ (balanceOrDefault bal) dm)
                 = targetsOf ''backend'' (render templ [(''port'', exposedPort)]) @
                   map (\<lambda>(d, s). name s) dm \<and>
               set (targetsOf ''use_backend''
                      (routingDocument render templ (balanceOrDefault bal) dm)) \<subseteq>
                 set (targetsOf ''use_backend'' (render templ [(''port'', exposedPort)])) \<union>
                 set (targetsOf ''backend''
                      (routingDocument render templ (balanceOrDefault bal) dm))))"
proof (intro conjI impI)
  assume "''hasOwnProperty'' \<in> set (map fst dm)"
  then show "withURLrouting render templ n dm bal = Inl TypeError"
    by (rule withURLrouting_raises)
next
  assume "''hasOwnProperty'' \<notin> set (map fst dm)"
  then show "withURLrouting render templ n dm bal =
      Inr (createHapService n (Many (map snd dm))
             [configPath \<mapsto> routingDocument render templ (balanceOrDefault bal) dm])"
    by (rule withURLrouting_deploys [OF assms])
next
  assume wf: "(\<forall>(d, s) \<in> set dm. token d \<and> wellFormedService s) \<and> token (balanceOrDefault bal)"
  then have entries: "\<forall>(d, s) \<in> set dm. token d \<and> wellFormedService s"
    and balance: "token (balanceOrDefault bal)"
    by simp_all
  show uses: "targetsOf ''use_backend'' (routingDocument render templ (balanceOrDefault bal) dm)
      = targetsOf ''use_backend'' (render templ [(''port'', exposedPort)]) @
        map (\<lambda>(d, s). name s) dm"
    by (rule routingDocument_use_backend_targets [OF entries balance])
  show headers: "targetsOf ''backend'' (routingDocument render templ (balanceOrDefault bal) dm)
      = targetsOf ''backend'' (render templ [(''port'', exposedPort)]) @
        map (\<lambda>(d, s). name s) dm"
    by (rule routingDocument_backend_targets [OF entries balance])
  show "set (targetsOf ''use_backend''
             (routingDocument render templ (balanceOrDefault bal) dm)) \<subseteq>
      set (targetsOf ''use_backend'' (render templ [(''port'', exposedPort)])) \<union>
      set (targetsOf ''backend'' (routingDocument render templ (balanceOrDefault bal) dm))"
    unfolding uses headers by auto
qed

text \<open>
  The map of the scenario of the specification: the document that the entry point
  deploys, and the targets and headers read from that document. And the map with the
  key \<^verbatim>\<open>hasOwnProperty\<close>, where the entry point raises.
\<close>

theorem withURLrouting_backends_declared_witness:
  "distinct (map fst
     [(''a.com'', \<lparr>name = ''svcA'', children = [''10.0.0.1''], allowedInbound = []\<rparr>),
      (''b.com'', \<lparr>name = ''svcB'', children = [''10.0.0.2''], allowedInbound = []\<rparr>)]) \<and>
   ''hasOwnProperty'' \<notin> set (map fst
     [(''a.com'', \<lparr>name = ''svcA'', children = [''10.0.0.1''], allowedInbound = []\<rparr>),
      (''b.com'', \<lparr>name = ''svcB'', children = [''10.0.0.2''], allowedInbound = []\<rparr>)]) \<and>
   token ''a.com'' \<and>
   wellFormedService \<lparr>name = ''svcA'', children = [''10.0.0.1''], allowedInbound = []\<rparr> \<and>
   token ''b.com'' \<and>
   wellFormedService \<lparr>name = ''svcB'', children = [''10.0.0.2''], allowedInbound = []\<rparr> \<and>
   token (balanceOrDefault None) \<and>
   documentOf (withURLrouting mustacheRender ''frontend http-in\<newline>    bind *:{{port}}'' 1
     [(''a.com'', \<lparr>name = ''svcA'', children = [''10.0.0.1''], allowedInbound = []\<rparr>),
      (''b.com'', \<lparr>name = ''svcB'', children = [''10.0.0.2''], allowedInbound = []\<rparr>)] None) =
   ''frontend http-in\<newline>    bind *:80\<newline>    acl svcA_req hdr(host) -i a.com\<newline>    acl svcB_req hdr(host) -i b.com\<newline>    use_backend svcA if svcA_req\<newline>    use_backend svcB if svcB_req\<newline>\<newline>backend svcA\<newline>    balance roundrobin\<newline>    cookie SERVERID insert indirect nocache\<newline>    server svcA-0 10.0.0.1:80 check resolvers dns cookie svcA-0\<newline>\<newline>backend svcB\<newline>    balance roundrobin\<newline>    cookie SERVERID insert indirect nocache\<newline>    server svcB-0 10.0.0.2:80 check resolvers dns cookie svcB-0\<newline>'' \<and>
   targetsOf ''use_backend''
     (documentOf (withURLrouting mustacheRender ''frontend http-in\<newline>    bind *:{{port}}'' 1
       [(''a.com'', \<lparr>name = ''svcA'', children = [''10.0.0.1''], allowedInbound = []\<rparr>),
        (''b.com'', \<lparr>name = ''svcB'', children = [''10.0.0.2''], allowedInbound = []\<rparr>)] None))
     = [''svcA'', ''svcB''] \<and>
   targetsOf ''backend''
     (documentOf (withURLrouting mustacheRender ''frontend http-in\<newline>    bind *:{{port}}'' 1
       [(''a.com'', \<lparr>name = ''svcA'', children = [''10.0.0.1''], allowedInbound = []\<rparr>),
        (''b.com'', \<lparr>name = ''svcB'', children = [''10.0.0.2''], allowedInbound = []\<rparr>)] None))
     = [''svcA'', ''svcB''] \<and>
   withURLrouting mustacheRender ''frontend http-in\<newline>    bind *:{{port}}'' 1
     [(''hasOwnProperty'', \<lparr>name = ''svcA'', children = [''10.0.0.1''], allowedInbound = []\<rparr>)]
     None = Inl TypeError"
proof -
  let ?t = "''frontend http-in\<newline>    bind *:{{port}}''"
  let ?dm = "[(''a.com'', \<lparr>name = ''svcA'', children = [''10.0.0.1''], allowedInbound = []\<rparr>),
      (''b.com'', \<lparr>name = ''svcB'', children = [''10.0.0.2''], allowedInbound = []\<rparr>)]"
  let ?bad = "[(''hasOwnProperty'',
      \<lparr>name = ''svcA'', children = [''10.0.0.1''], allowedInbound = []\<rparr>)]"
  have d: "distinct (map fst ?dm)" by simp
  have k: "''hasOwnProperty'' \<notin> set (map fst ?dm)" by simp
  have w: "\<forall>(d, s) \<in> set ?dm. token d \<and> wellFormedService s"
    by (simp add: token_def wellFormedService_def)
  have b: "token (balanceOrDefault None)"
    by (simp add: token_def balanceOrDefault_def)
  have bad_d: "distinct (map fst ?bad)" by simp
  have bad_k: "''hasOwnProperty'' \<in> set (map fst ?bad)" by simp
  from withURLrouting_backends_declared [OF bad_d, of mustacheRender ?t 1 None] bad_k
  have raises: "withURLrouting mustacheRender ?t 1 ?bad None = Inl TypeError" by blast
  note c = withURLrouting_backends_declared [OF d, of mustacheRender ?t 1 None]
  from c k have "withURLrouting mustacheRender ?t 1 ?dm None =
      Inr (createHapService 1 (Many (map snd ?dm))
             [configPath \<mapsto> routingDocument mustacheRender ?t (balanceOrDefault None) ?dm])"
    by blast
  then have deployed: "documentOf (withURLrouting mustacheRender ?t 1 ?dm None) =
      routingDocument mustacheRender ?t (balanceOrDefault None) ?dm"
    by (simp add: documentOf_def configOf_def createHapService_def Let_def)
  have preamble: "mustacheRender ?t [(''port'', exposedPort)] = ''frontend http-in\<newline>    bind *:80''"
    by (simp add: exposedPort_def render_example)
  have no_use: "targetsOf ''use_backend'' ''frontend http-in\<newline>    bind *:80'' = []"
    by (simp add: targetsOf_def directivesWith_def directivesOf_def configLines_def
        configWords_def)
  have no_backend: "targetsOf ''backend'' ''frontend http-in\<newline>    bind *:80'' = []"
    by (simp add: targetsOf_def directivesWith_def directivesOf_def configLines_def
        configWords_def)
  from c k w b have uses: "targetsOf ''use_backend''
      (routingDocument mustacheRender ?t (balanceOrDefault None) ?dm)
      = targetsOf ''use_backend'' (mustacheRender ?t [(''port'', exposedPort)]) @
        map (\<lambda>(d, s). name s) ?dm"
    by blast
  from c k w b have headers: "targetsOf ''backend''
      (routingDocument mustacheRender ?t (balanceOrDefault None) ?dm)
      = targetsOf ''backend'' (mustacheRender ?t [(''port'', exposedPort)]) @
        map (\<lambda>(d, s). name s) ?dm"
    by blast
  have text_of: "routingDocument mustacheRender ?t (balanceOrDefault None) ?dm =
   ''frontend http-in\<newline>    bind *:80\<newline>    acl svcA_req hdr(host) -i a.com\<newline>    acl svcB_req hdr(host) -i b.com\<newline>    use_backend svcA if svcA_req\<newline>    use_backend svcB if svcB_req\<newline>\<newline>backend svcA\<newline>    balance roundrobin\<newline>    cookie SERVERID insert indirect nocache\<newline>    server svcA-0 10.0.0.1:80 check resolvers dns cookie svcA-0\<newline>\<newline>backend svcB\<newline>    balance roundrobin\<newline>    cookie SERVERID insert indirect nocache\<newline>    server svcB-0 10.0.0.2:80 check resolvers dns cookie svcB-0\<newline>''"
    by (simp add: routingDocument_def preamble balanceOrDefault_def joinLines_def aclLine_def
        useBackendLine_def backendBlock_def serverLine_def formatNumber_0)
  have "targetsOf ''use_backend'' (documentOf (withURLrouting mustacheRender ?t 1 ?dm None))
      = [''svcA'', ''svcB'']"
    unfolding deployed uses preamble no_use by simp
  moreover have "targetsOf ''backend'' (documentOf (withURLrouting mustacheRender ?t 1 ?dm None))
      = [''svcA'', ''svcB'']"
    unfolding deployed headers preamble no_backend by simp
  moreover have "documentOf (withURLrouting mustacheRender ?t 1 ?dm None) =
   ''frontend http-in\<newline>    bind *:80\<newline>    acl svcA_req hdr(host) -i a.com\<newline>    acl svcB_req hdr(host) -i b.com\<newline>    use_backend svcA if svcA_req\<newline>    use_backend svcB if svcB_req\<newline>\<newline>backend svcA\<newline>    balance roundrobin\<newline>    cookie SERVERID insert indirect nocache\<newline>    server svcA-0 10.0.0.1:80 check resolvers dns cookie svcA-0\<newline>\<newline>backend svcB\<newline>    balance roundrobin\<newline>    cookie SERVERID insert indirect nocache\<newline>    server svcB-0 10.0.0.2:80 check resolvers dns cookie svcB-0\<newline>''"
    unfolding deployed by (rule text_of)
  ultimately show ?thesis using d k w b raises by simp
qed

text \<open>
  C1, as the code has it. For every domain map without the own key
  \<^verbatim>\<open>hasOwnProperty\<close>, \<open>withURLrouting\<close> deploys the document \<open>routingDocument\<close>,
  whose backend section is \<open>createBackendConfigs\<close> of the services of the entries: one
  backend block per entry of the map, in iteration order, so that a service that is
  stored under several domains gets one block, with the same name, for each of them.
  When the domains, service names, addresses and the balance token are words of the
  configuration grammar, the deployed document reads back so: after the headers of
  the preamble, one backend header per entry, so the number of backend headers that
  the entry point emits is the number of domain keys; and one use_backend directive
  per entry, naming that backend.
\<close>

theorem withURLrouting_block_per_domain:
  assumes "distinct (map fst dm)" and "''hasOwnProperty'' \<notin> set (map fst dm)"
  shows "withURLrouting render templ n dm bal =
           Inr (createHapService n (Many (map snd dm))
                  [configPath \<mapsto> routingDocument render templ (balanceOrDefault bal) dm]) \<and>
         routingDocument render templ (balanceOrDefault bal) dm =
           render templ [(''port'', exposedPort)] @
           joinLines (map (\<lambda>(d, s). aclLine d s) dm @ map (\<lambda>(d, s). useBackendLine s) dm) @
           ''\<newline>'' @ createBackendConfigs (Many (map snd dm)) (balanceOrDefault bal) \<and>
         createBackendConfigs (Many (map snd dm)) (balanceOrDefault bal) =
           joinLines (concat (map (\<lambda>(d, s). backendBlock (balanceOrDefault bal) s) dm)) \<and>
         ((\<forall>(d, s) \<in> set dm. token d \<and> wellFormedService s) \<and> token (balanceOrDefault bal) \<longrightarrow>
            directivesWith ''backend'' (routingDocument render templ (balanceOrDefault bal) dm)
              = directivesWith ''backend'' (render templ [(''port'', exposedPort)]) @
                map (\<lambda>(d, s). [''backend'', name s]) dm \<and>
            length (directivesWith ''backend''
                (routingDocument render templ (balanceOrDefault bal) dm))
              = length (directivesWith ''backend'' (render templ [(''port'', exposedPort)])) +
                length dm \<and>
            directivesWith ''use_backend''
                (routingDocument render templ (balanceOrDefault bal) dm)
              = directivesWith ''use_backend'' (render templ [(''port'', exposedPort)]) @
                map (\<lambda>(d, s). [''use_backend'', name s, ''if'', name s @ ''_req'']) dm)"
proof (intro conjI impI)
  show "withURLrouting render templ n dm bal =
      Inr (createHapService n (Many (map snd dm))
             [configPath \<mapsto> routingDocument render templ (balanceOrDefault bal) dm])"
    by (rule withURLrouting_deploys [OF assms])
  show blocks: "createBackendConfigs (Many (map snd dm)) (balanceOrDefault bal) =
      joinLines (concat (map (\<lambda>(d, s). backendBlock (balanceOrDefault bal) s) dm))"
    by (simp add: createBackendConfigs_lines comp_def case_prod_unfold)
  show "routingDocument render templ (balanceOrDefault bal) dm =
      render templ [(''port'', exposedPort)] @
      joinLines (map (\<lambda>(d, s). aclLine d s) dm @ map (\<lambda>(d, s). useBackendLine s) dm) @
      ''\<newline>'' @ createBackendConfigs (Many (map snd dm)) (balanceOrDefault bal)"
    unfolding blocks by (simp add: routingDocument_def)
next
  assume wf: "(\<forall>(d, s) \<in> set dm. token d \<and> wellFormedService s) \<and> token (balanceOrDefault bal)"
  then have entries: "\<forall>(d, s) \<in> set dm. token d \<and> wellFormedService s"
    and balance: "token (balanceOrDefault bal)"
    by simp_all
  show headers: "directivesWith ''backend''
        (routingDocument render templ (balanceOrDefault bal) dm)
      = directivesWith ''backend'' (render templ [(''port'', exposedPort)]) @
        map (\<lambda>(d, s). [''backend'', name s]) dm"
    by (rule routingDocument_backend [OF entries balance])
  show "length (directivesWith ''backend''
        (routingDocument render templ (balanceOrDefault bal) dm))
      = length (directivesWith ''backend'' (render templ [(''port'', exposedPort)])) +
        length dm"
    unfolding headers by simp
  have "map (\<lambda>(d, s). useBackendDirective s) dm =
      map (\<lambda>(d, s). [''use_backend'', name s, ''if'', name s @ ''_req'']) dm"
    by (auto simp: useBackendDirective_def)
  then show "directivesWith ''use_backend''
        (routingDocument render templ (balanceOrDefault bal) dm)
      = directivesWith ''use_backend'' (render templ [(''port'', exposedPort)]) @
        map (\<lambda>(d, s). [''use_backend'', name s, ''if'', name s @ ''_req'']) dm"
    unfolding routingDocument_use_backend [OF entries balance] by simp
qed

text \<open>
  The map that stores the service \<open>web\<close> under two domains: the deployed document has
  two backend headers and two use_backend directives for it.
\<close>

theorem withURLrouting_block_per_domain_witness:
  "distinct (map fst
     [(''a.com'', \<lparr>name = ''web'', children = [''10.0.0.1''], allowedInbound = []\<rparr>),
      (''b.com'', \<lparr>name = ''web'', children = [''10.0.0.1''], allowedInbound = []\<rparr>)]) \<and>
   ''hasOwnProperty'' \<notin> set (map fst
     [(''a.com'', \<lparr>name = ''web'', children = [''10.0.0.1''], allowedInbound = []\<rparr>),
      (''b.com'', \<lparr>name = ''web'', children = [''10.0.0.1''], allowedInbound = []\<rparr>)]) \<and>
   token ''a.com'' \<and> token ''b.com'' \<and>
   wellFormedService \<lparr>name = ''web'', children = [''10.0.0.1''], allowedInbound = []\<rparr> \<and>
   token (balanceOrDefault None) \<and>
   directivesWith ''backend''
     (documentOf (withURLrouting mustacheRender ''frontend http-in\<newline>    bind *:{{port}}'' 1
       [(''a.com'', \<lparr>name = ''web'', children = [''10.0.0.1''], allowedInbound = []\<rparr>),
        (''b.com'', \<lparr>name = ''web'', children = [''10.0.0.1''], allowedInbound = []\<rparr>)] None))
     = [[''backend'', ''web''], [''backend'', ''web'']] \<and>
   directivesWith ''use_backend''
     (documentOf (withURLrouting mustacheRender ''frontend http-in\<newline>    bind *:{{port}}'' 1
       [(''a.com'', \<lparr>name = ''web'', children = [''10.0.0.1''], allowedInbound = []\<rparr>),
        (''b.com'', \<lparr>name = ''web'', children = [''10.0.0.1''], allowedInbound = []\<rparr>)] None))
     = [[''use_backend'', ''web'', ''if'', ''web_req''],
        [''use_backend'', ''web'', ''if'', ''web_req'']]"
proof -
  let ?t = "''frontend http-in\<newline>    bind *:{{port}}''"
  let ?dm = "[(''a.com'', \<lparr>name = ''web'', children = [''10.0.0.1''], allowedInbound = []\<rparr>),
      (''b.com'', \<lparr>name = ''web'', children = [''10.0.0.1''], allowedInbound = []\<rparr>)]"
  have d: "distinct (map fst ?dm)" by simp
  have k: "''hasOwnProperty'' \<notin> set (map fst ?dm)" by simp
  have w: "\<forall>(d, s) \<in> set ?dm. token d \<and> wellFormedService s"
    by (simp add: token_def wellFormedService_def)
  have b: "token (balanceOrDefault None)"
    by (simp add: token_def balanceOrDefault_def)
  note c = withURLrouting_block_per_domain [OF d k, of mustacheRender ?t 1 None]
  from c have "withURLrouting mustacheRender ?t 1 ?dm None =
      Inr (createHapService 1 (Many (map snd ?dm))
             [configPath \<mapsto> routingDocument mustacheRender ?t (balanceOrDefault None) ?dm])"
    by (rule conjunct1)
  then have deployed: "documentOf (withURLrouting mustacheRender ?t 1 ?dm None) =
      routingDocument mustacheRender ?t (balanceOrDefault None) ?dm"
    by (simp add: documentOf_def configOf_def createHapService_def Let_def)
  have preamble: "mustacheRender ?t [(''port'', exposedPort)] = ''frontend http-in\<newline>    bind *:80''"
    by (simp add: exposedPort_def render_example)
  have no_use: "directivesWith ''use_backend'' ''frontend http-in\<newline>    bind *:80'' = []"
    by (simp add: directivesWith_def directivesOf_def configLines_def configWords_def)
  have no_backend: "directivesWith ''backend'' ''frontend http-in\<newline>    bind *:80'' = []"
    by (simp add: directivesWith_def directivesOf_def configLines_def configWords_def)
  from c w b have headers: "directivesWith ''backend''
      (routingDocument mustacheRender ?t (balanceOrDefault None) ?dm)
      = directivesWith ''backend'' (mustacheRender ?t [(''port'', exposedPort)]) @
        map (\<lambda>(d, s). [''backend'', name s]) ?dm"
    by blast
  from c w b have rules: "directivesWith ''use_backend''
      (routingDocument mustacheRender ?t (balanceOrDefault None) ?dm)
      = directivesWith ''use_backend'' (mustacheRender ?t [(''port'', exposedPort)]) @
        map (\<lambda>(d, s). [''use_backend'', name s, ''if'', name s @ ''_req'']) ?dm"
    by blast
  have "directivesWith ''backend'' (documentOf (withURLrouting mustacheRender ?t 1 ?dm None))
      = [[''backend'', ''web''], [''backend'', ''web'']]"
    unfolding deployed headers preamble no_backend by simp
  moreover have "directivesWith ''use_backend''
      (documentOf (withURLrouting mustacheRender ?t 1 ?dm None))
      = [[''use_backend'', ''web'', ''if'', ''web_req''],
         [''use_backend'', ''web'', ''if'', ''web_req'']]"
    unfolding deployed rules preamble no_use by simp
  ultimately show ?thesis using d k w b by simp
qed

text \<open>
  C1 as stated, with one backend block per distinct service, fails: for a map that
  stores the same service under two domains, the document of \<open>withURLrouting\<close> has two
  backend headers, while the map refers to one service.
\<close>

theorem withURLrouting_shared_service_counterexample:
  "length (directivesWith ''backend''
      (documentOf (withURLrouting mustacheRender ''frontend http-in\<newline>    bind *:{{port}}'' 1
         [(''a.com'', \<lparr>name = ''web'', children = [''10.0.0.1''], allowedInbound = []\<rparr>),
          (''b.com'', \<lparr>name = ''web'', children = [''10.0.0.1''], allowedInbound = []\<rparr>)]
         None))) = 2 \<and>
   card (snd ` set
         [(''a.com'', \<lparr>name = ''web'', children = [''10.0.0.1''], allowedInbound = []\<rparr>),
          (''b.com'', \<lparr>name = ''web'', children = [''10.0.0.1''], allowedInbound = []\<rparr>)]) = 1 \<and>
   length (directivesWith ''backend''
      (documentOf (withURLrouting mustacheRender ''frontend http-in\<newline>    bind *:{{port}}'' 1
         [(''a.com'', \<lparr>name = ''web'', children = [''10.0.0.1''], allowedInbound = []\<rparr>),
          (''b.com'', \<lparr>name = ''web'', children = [''10.0.0.1''], allowedInbound = []\<rparr>)]
         None)))
   \<noteq> card (snd ` set
         [(''a.com'', \<lparr>name = ''web'', children = [''10.0.0.1''], allowedInbound = []\<rparr>),
          (''b.com'', \<lparr>name = ''web'', children = [''10.0.0.1''], allowedInbound = []\<rparr>)])"
  by (simp add: withURLrouting_def forInKeys_def urlRoutingConfig_def backendName_def
      hasOwnProperty_def aclPattern_def useBackendPattern_def
      createHapService_def Let_def configOf_def documentOf_def
      createConfigFiles_def exposedPort_def render_example balanceOrDefault_def
      createBackendConfigs_lines joinLines_def backendBlock_def serverLine_def
      formatNumber_0
      directivesWith_def directivesOf_def configLines_def configWords_def)

text \<open>
  C8. The generator is deterministic, and the document depends only on the names,
  the endpoint snapshots, the domains and their order, the balance token and the
  template. Two invocations of an entry
  point with the same renderer, template, replica count and balance argument, on
  domain maps that list the same domains in the same order with services of the same
  names and endpoint snapshots (or on two such services, for the single-target entry
  point), end alike: both raise the same error, or both return the same HAProxy
  service, hence the same document, whatever else the service objects carry, such as
  the connections granted by an earlier invocation.
\<close>

theorem generator_deterministic:
  assumes "distinct (map fst dm)"
    and "sameEntries dm' dm"
    and "sameSnapshot s' s"
  shows "map_sum id fst (withURLrouting render templ n dm' bal) =
           map_sum id fst (withURLrouting render templ n dm bal) \<and>
         fst (singleServiceLoadBalancer render templ n s' bal) =
           fst (singleServiceLoadBalancer render templ n s bal)"
proof
  have keys: "map fst dm' = map fst dm"
    by (rule sameEntries_keys [OF assms(2)])
  with assms(1) have distinct': "distinct (map fst dm')" by simp
  show "map_sum id fst (withURLrouting render templ n dm' bal) =
      map_sum id fst (withURLrouting render templ n dm bal)"
  proof (cases "''hasOwnProperty'' \<in> set (map fst dm)")
    case True
    then have "''hasOwnProperty'' \<in> set (map fst dm')" by (simp add: keys)
    with True show ?thesis by (simp add: withURLrouting_raises)
  next
    case False
    then have absent': "''hasOwnProperty'' \<notin> set (map fst dm')" by (simp add: keys)
    have blocks: "map (\<lambda>(d, s). backendBlock (balanceOrDefault bal) s) dm' =
        map (\<lambda>(d, s). backendBlock (balanceOrDefault bal) s) dm"
      using sameEntries_blocks [OF assms(2), of "balanceOrDefault bal"]
      by (simp only: snd_blocks)
    have "routingDocument render templ (balanceOrDefault bal) dm' =
        routingDocument render templ (balanceOrDefault bal) dm"
      by (simp only: routingDocument_def sameEntries_acls [OF assms(2)]
          sameEntries_rules [OF assms(2)] blocks)
    then show ?thesis
      by (simp add: withURLrouting_deploys [OF assms(1) False]
          withURLrouting_deploys [OF distinct' absent'] createHapService_def Let_def)
  qed
  have "createBackendConfigs (One s') (balanceOrDefault bal)
      = createBackendConfigs (One s) (balanceOrDefault bal)"
    by (simp add: createBackendConfigs_lines backendBlock_reads [OF assms(3)])
  with assms(3)
  show "fst (singleServiceLoadBalancer render templ n s' bal) =
           fst (singleServiceLoadBalancer render templ n s bal)"
    by (simp add: singleServiceLoadBalancer_files createHapService_def Let_def sameSnapshot_def)
qed

text \<open>
  The second of two invocations in a row: the first one leaves the service with one
  more inbound connection, and the second one, on that service, returns the same
  HAProxy service.
\<close>

theorem generator_deterministic_witness:
  "distinct (map fst
     [(''a.com'', \<lparr>name = ''web'', children = [''10.0.0.1''], allowedInbound = []\<rparr>)]) \<and>
   sameEntries
     [(''a.com'', \<lparr>name = ''web'', children = [''10.0.0.1''],
                  allowedInbound = [(''haproxy'', 80)]\<rparr>)]
     [(''a.com'', \<lparr>name = ''web'', children = [''10.0.0.1''], allowedInbound = []\<rparr>)] \<and>
   sameSnapshot
     \<lparr>name = ''web'', children = [''10.0.0.1''], allowedInbound = [(''haproxy'', 80)]\<rparr>
     \<lparr>name = ''web'', children = [''10.0.0.1''], allowedInbound = []\<rparr> \<and>
   map_sum id snd (withURLrouting mustacheRender ''bind *:{{port}}'' 2
        [(''a.com'', \<lparr>name = ''web'', children = [''10.0.0.1''], allowedInbound = []\<rparr>)] None) =
     Inr [\<lparr>name = ''web'', children = [''10.0.0.1''], allowedInbound = [(''haproxy'', 80)]\<rparr>] \<and>
   map_sum id fst (withURLrouting mustacheRender ''bind *:{{port}}'' 2
        [(''a.com'', \<lparr>name = ''web'', children = [''10.0.0.1''],
                     allowedInbound = [(''haproxy'', 80)]\<rparr>)] None) =
   map_sum id fst (withURLrouting mustacheRender ''bind *:{{port}}'' 2
        [(''a.com'', \<lparr>name = ''web'', children = [''10.0.0.1''], allowedInbound = []\<rparr>)] None) \<and>
   fst (singleServiceLoadBalancer mustacheRender ''bind *:{{port}}'' 2
        \<lparr>name = ''web'', children = [''10.0.0.1''], allowedInbound = [(''haproxy'', 80)]\<rparr> None) =
   fst (singleServiceLoadBalancer mustacheRender ''bind *:{{port}}'' 2
        \<lparr>name = ''web'', children = [''10.0.0.1''], allowedInbound = []\<rparr> None)"
proof -
  have d: "distinct (map fst
      [(''a.com'', \<lparr>name = ''web'', children = [''10.0.0.1''], allowedInbound = []\<rparr>)])"
    by simp
  have e: "sameEntries
     [(''a.com'', \<lparr>name = ''web'', children = [''10.0.0.1''],
                  allowedInbound = [(''haproxy'', 80)]\<rparr>)]
     [(''a.com'', \<lparr>name = ''web'', children = [''10.0.0.1''], allowedInbound = []\<rparr>)]"
    by (simp add: sameEntries_def sameSnapshot_def)
  have s: "sameSnapshot
     \<lparr>name = ''web'', children = [''10.0.0.1''], allowedInbound = [(''haproxy'', 80)]\<rparr>
     \<lparr>name = ''web'', children = [''10.0.0.1''], allowedInbound = []\<rparr>"
    by (simp add: sameSnapshot_def)
  have first: "map_sum id snd (withURLrouting mustacheRender ''bind *:{{port}}'' 2
        [(''a.com'', \<lparr>name = ''web'', children = [''10.0.0.1''], allowedInbound = []\<rparr>)] None) =
     Inr [\<lparr>name = ''web'', children = [''10.0.0.1''], allowedInbound = [(''haproxy'', 80)]\<rparr>]"
    by (simp add: withURLrouting_deploys createHapService_def allowFrom_def internalPort_def)
  from generator_deterministic [OF d e s, of mustacheRender "''bind *:{{port}}''" 2 None]
    d e s first
  show ?thesis by simp
qed

end
